theory Spec2Isabelle
  imports Complex_Main
begin

section \<open>Python values of \<^verbatim>\<open>plugin.py\<close>\<close>

text \<open>
  A Python \<^verbatim>\<open>str\<close> is a sequence of Unicode code points. The messages of the plugin
  are Chinese, so a string is a list of code points and not a list of bytes; \<open>ascii\<close>
  embeds an ASCII literal.
\<close>

type_synonym codepoint = nat
type_synonym pystr = "codepoint list"

definition ascii :: "string \<Rightarrow> pystr" where
  "ascii s = map of_char s"

text \<open>
  The values the action reads from \<^verbatim>\<open>action_data\<close>, from the ambient chat context and
  from the person API are strings or \<^verbatim>\<open>None\<close> (the annotations of the source are
  \<^verbatim>\<open>Optional[str]\<close>).
\<close>

datatype pyval = PNone | PStr pystr

text \<open>Truth value of a value in a condition (\<^verbatim>\<open>if x\<close>, \<^verbatim>\<open>not x\<close>, \<^verbatim>\<open>x and y\<close>, \<^verbatim>\<open>x or y\<close>).\<close>

fun truthy :: "pyval \<Rightarrow> bool" where
  "truthy PNone = False"
| "truthy (PStr s) = (s \<noteq> [])"

text \<open>\<^verbatim>\<open>str(x)\<close>, which is also how an f-string renders a field \<^verbatim>\<open>{x}\<close>.\<close>

fun py_str :: "pyval \<Rightarrow> pystr" where
  "py_str PNone = ascii ''None''"
| "py_str (PStr s) = s"

text \<open>\<^verbatim>\<open>d.get(k)\<close> and \<^verbatim>\<open>d.get(k, default)\<close> on a dictionary.\<close>

definition dict_get :: "(pystr \<rightharpoonup> pyval) \<Rightarrow> pystr \<Rightarrow> pyval" where
  "dict_get d k = (case d k of None \<Rightarrow> PNone | Some v \<Rightarrow> v)"

definition dict_get_default :: "(pystr \<rightharpoonup> pyval) \<Rightarrow> pystr \<Rightarrow> pyval \<Rightarrow> pyval" where
  "dict_get_default d k dflt = (case d k of None \<Rightarrow> dflt | Some v \<Rightarrow> v)"

subsection \<open>Time stamps: binary64\<close>

text \<open>
  \<^verbatim>\<open>time.time()\<close> returns a \<^verbatim>\<open>float\<close>, and line 165 subtracts two of them in binary64
  arithmetic and compares the rounded difference with \<^verbatim>\<open>300\<close>. \<open>Finite m e\<close> is the
  binary64 value \<open>m * 2 ^ e\<close>, with \<open>\<bar>m\<bar> < 2 ^ 53\<close> and \<open>- 1074 \<le> e\<close> and \<open>e \<le> 971\<close>;
  the class attribute \<^verbatim>\<open>_last_poke_time = 0\<close> is \<open>Finite 0 0\<close> (the \<^verbatim>\<open>int\<close> is converted
  for the subtraction). The sign of a zero is not kept: it has no effect on \<^verbatim>\<open><\<close>.
\<close>

datatype float64 = Finite int int | PosInf | NegInf | NaN

text \<open>\<^verbatim>\<open>int.bit_length\<close> of a natural number.\<close>

fun bit_length :: "nat \<Rightarrow> nat" where
  "bit_length n = (if n = 0 then 0 else Suc (bit_length (n div 2)))"

declare bit_length.simps [simp del]

text \<open>\<open>m / 2 ^ k\<close> rounded to the nearest integer, a tie to the even one (\<open>0 < k\<close>).\<close>

definition round_half_even :: "int \<Rightarrow> nat \<Rightarrow> int" where
  "round_half_even m k =
     (let q = m div 2 ^ k; r = m mod 2 ^ k; half = 2 ^ (k - 1)
      in if r < half then q
         else if half < r then q + 1
         else if even q then q else q + 1)"

text \<open>
  The exact value \<open>m * 2 ^ e\<close>, with \<open>- 1074 \<le> e\<close>, rounded to binary64 in the default
  mode (to nearest, ties to even): a value of at most 53 bits is kept, a longer one
  loses its low bits, and a result of magnitude \<open>2 ^ 1024\<close> or more is an infinity.
\<close>

definition round_binary64 :: "int \<Rightarrow> int \<Rightarrow> float64" where
  "round_binary64 m e =
     (let k = int (bit_length (nat \<bar>m\<bar>)) - 53
      in if k \<le> 0 then Finite m e
         else
           (let m' = round_half_even m (nat k)
            in if 1024 < int (bit_length (nat \<bar>m'\<bar>)) + (e + k)
               then (if m < 0 then NegInf else PosInf)
               else Finite m' (e + k)))"

text \<open>\<^verbatim>\<open>x - y\<close> on two floats.\<close>

fun float_sub :: "float64 \<Rightarrow> float64 \<Rightarrow> float64" where
  "float_sub (Finite m1 e1) (Finite m2 e2) =
     (let e = min e1 e2
      in round_binary64 (m1 * 2 ^ nat (e1 - e) - m2 * 2 ^ nat (e2 - e)) e)"
| "float_sub NaN y = NaN"
| "float_sub x NaN = NaN"
| "float_sub PosInf PosInf = NaN"
| "float_sub NegInf NegInf = NaN"
| "float_sub PosInf y = PosInf"
| "float_sub NegInf y = NegInf"
| "float_sub (Finite m e) PosInf = NegInf"
| "float_sub (Finite m e) NegInf = PosInf"

text \<open>\<^verbatim>\<open>x < n\<close> for a float \<open>x\<close> and an \<^verbatim>\<open>int\<close> \<open>n\<close>, which Python compares exactly.\<close>

fun float_lt_int :: "float64 \<Rightarrow> int \<Rightarrow> bool" where
  "float_lt_int (Finite m e) n =
     (if 0 \<le> e then m * 2 ^ nat e < n else m < n * 2 ^ nat (- e))"
| "float_lt_int PosInf n = False"
| "float_lt_int NegInf n = True"
| "float_lt_int NaN n = False"

subsection \<open>Character classes of the interpreter\<close>

text \<open>
  \<^verbatim>\<open>str.isdigit\<close> and the classes \<^verbatim>\<open>\d\<close> and \<^verbatim>\<open>\s\<close> of \<^verbatim>\<open>re\<close> on a \<^verbatim>\<open>str\<close> pattern
  consult the Unicode database of the interpreter, which changes with the Python
  version. The three classifications are parameters: \<open>cp_isdigit\<close> is
  \<^verbatim>\<open>Py_UNICODE_ISDIGIT\<close>, \<open>cp_isdecimal\<close> is \<^verbatim>\<open>Py_UNICODE_ISDECIMAL\<close> (the class
  \<^verbatim>\<open>\d\<close>) and \<open>cp_isspace\<close> is \<^verbatim>\<open>Py_UNICODE_ISSPACE\<close> (the class \<^verbatim>\<open>\s\<close>).
\<close>

record unicode_db =
  cp_isdigit :: "codepoint \<Rightarrow> bool"
  cp_isdecimal :: "codepoint \<Rightarrow> bool"
  cp_isspace :: "codepoint \<Rightarrow> bool"

text \<open>
  On the ASCII range every Unicode database agrees: the digits are \<^verbatim>\<open>0\<close> to \<^verbatim>\<open>9\<close>, the
  white space is tab, line feed, vertical tab, form feed, carriage return, the four
  separators \<^verbatim>\<open>0x1c\<close> to \<^verbatim>\<open>0x1f\<close> and the blank.
\<close>

definition ascii_digit :: "codepoint \<Rightarrow> bool" where
  "ascii_digit c = (48 \<le> c \<and> c \<le> 57)"

definition ascii_space :: "codepoint \<Rightarrow> bool" where
  "ascii_space c = ((9 \<le> c \<and> c \<le> 13) \<or> (28 \<le> c \<and> c \<le> 32))"

definition ascii_db :: unicode_db where
  "ascii_db = \<lparr>cp_isdigit = ascii_digit, cp_isdecimal = ascii_digit, cp_isspace = ascii_space\<rparr>"

text \<open>\<^verbatim>\<open>s.isdigit()\<close>: at least one character, and every character a digit.\<close>

definition py_isdigit :: "unicode_db \<Rightarrow> pystr \<Rightarrow> bool" where
  "py_isdigit u s = (s \<noteq> [] \<and> list_all (cp_isdigit u) s)"

subsection \<open>The two regular expressions\<close>

text \<open>
  \<^verbatim>\<open>re.search(r'group_id:\s*(\d+)', text)\<close> and \<^verbatim>\<open>re.search(r'user_id:\s*(\d+)', text)\<close>:
  a literal, then white space, then the captured digits. \<open>strip_literal\<close> matches the
  literal at the head of the text; \<open>match_digits\<close> is the greedy \<^verbatim>\<open>(\d+)\<close>;
  \<open>match_space_digits\<close> is \<^verbatim>\<open>\s*(\d+)\<close>, which takes a white-space character when it can
  and backtracks when the rest does not match; \<open>re_search\<close> tries every start
  position from the left and returns group 1 of the first match.
\<close>

fun strip_literal :: "pystr \<Rightarrow> pystr \<Rightarrow> pystr option" where
  "strip_literal [] s = Some s"
| "strip_literal (p # ps) [] = None"
| "strip_literal (p # ps) (c # cs) = (if p = c then strip_literal ps cs else None)"

definition match_digits :: "unicode_db \<Rightarrow> pystr \<Rightarrow> pystr option" where
  "match_digits u s =
     (let ds = takeWhile (cp_isdecimal u) s in if ds = [] then None else Some ds)"

fun match_space_digits :: "unicode_db \<Rightarrow> pystr \<Rightarrow> pystr option" where
  "match_space_digits u [] = None"
| "match_space_digits u (c # cs) =
     (if cp_isspace u c
      then (case match_space_digits u cs of
              Some ds \<Rightarrow> Some ds
            | None \<Rightarrow> match_digits u (c # cs))
      else match_digits u (c # cs))"

definition match_at :: "unicode_db \<Rightarrow> pystr \<Rightarrow> pystr \<Rightarrow> pystr option" where
  "match_at u lit s =
     (case strip_literal lit s of
        None \<Rightarrow> None
      | Some rest \<Rightarrow> match_space_digits u rest)"

fun re_search :: "unicode_db \<Rightarrow> pystr \<Rightarrow> pystr \<Rightarrow> pystr option" where
  "re_search u lit [] = match_at u lit []"
| "re_search u lit (c # cs) =
     (case match_at u lit (c # cs) of
        Some ds \<Rightarrow> Some ds
      | None \<Rightarrow> re_search u lit cs)"

section \<open>The action instance and its collaborators\<close>

subsection \<open>Exceptions and the outcome of a call into the host\<close>

text \<open>
  The handlers of the source are \<^verbatim>\<open>except Exception as e\<close> and use \<^verbatim>\<open>e\<close> only through
  \<^verbatim>\<open>str(e)\<close>, so an exception is modelled by its description. A call into the host
  (person API, transport, action store, conversation output) either returns or raises an
  \<^verbatim>\<open>Exception\<close>; cancellation and interpreter exit, which are not \<^verbatim>\<open>Exception\<close>s,
  are not part of the model.
\<close>

datatype exception = Exception (description: pystr)

datatype 'a outcome = Return 'a | Raise exception

subsection \<open>Ambient chat context\<close>

text \<open>
  \<open>MessageInfo g\<close> is a \<^verbatim>\<open>message_info\<close> object with \<^verbatim>\<open>getattr(_, "group_id", None) = g\<close>;
  \<open>Message mi\<close> is a message object with \<^verbatim>\<open>getattr(_, "message_info", None) = mi\<close>;
  \<open>ChatStream g\<close> is a chat stream with \<^verbatim>\<open>getattr(_, "group_id", None) = g\<close>. An
  attribute that is missing and an attribute that holds \<^verbatim>\<open>None\<close> read the same through
  \<^verbatim>\<open>getattr\<close> with the default \<^verbatim>\<open>None\<close>.
\<close>

datatype message_info = MessageInfo (mi_group_id: pyval)

datatype message = Message (msg_message_info: "message_info option")

datatype chat_stream = ChatStream (cs_group_id: pyval)

subsection \<open>The instance\<close>

text \<open>
  The fields of \<^verbatim>\<open>self\<close> that \<^verbatim>\<open>PokeAction\<close> reads or writes. \<open>message = None\<close> stands for
  \<^verbatim>\<open>hasattr(self, "message")\<close> being false or the attribute holding \<^verbatim>\<open>None\<close> (both skip
  the branch of line 93); \<open>chat_stream = None\<close> is a stream attribute holding
  \<^verbatim>\<open>None\<close> (line 183 reads it unguarded, so it exists);
  \<open>group_id_attr = None\<close> is \<^verbatim>\<open>hasattr(self, "group_id")\<close> being false. The last three
  fields are the cooldown state, \<^verbatim>\<open>None\<close>, \<^verbatim>\<open>None\<close> and \<^verbatim>\<open>0\<close> in a fresh instance. The
  stored time is \<^verbatim>\<open>0\<close> or an earlier reading of \<^verbatim>\<open>time.time()\<close>.
\<close>

record action =
  action_data :: "pystr \<rightharpoonup> pyval"
  message :: "message option"
  chat_stream :: "chat_stream option"
  group_id_attr :: "pyval option"
  reasoning :: pyval
  llm_response_text :: pystr
  last_poke_user :: pyval
  last_poke_group :: pyval
  last_poke_time :: float64

subsection \<open>Effects\<close>

text \<open>The keyword arguments of \<^verbatim>\<open>database_api.store_action_info\<close> (lines 182 to 189).\<close>

record store_args =
  arg_chat_stream :: "chat_stream option"
  arg_action_build_into_prompt :: bool
  arg_action_prompt_display :: pystr
  arg_action_done :: bool
  arg_action_data :: "(pystr \<times> pyval) list"
  arg_action_name :: pystr

text \<open>
  Every call that leaves the action is recorded, in the order the calls are made:
  the logger, the person API, \<^verbatim>\<open>self.send_command\<close> (command name, payload,
  \<^verbatim>\<open>display_message\<close>), the action store and \<^verbatim>\<open>self.send_text\<close>.
\<close>

datatype event =
    LoggerInfo pystr
  | LoggerError pystr
  | GetPersonIdByName pyval
  | GetPersonValue pyval pystr
  | SendCommand pystr "(pystr \<times> pyval) list" pystr
  | StoreActionInfo store_args
  | SendText pystr

text \<open>
  What the host does during one invocation. Each collaborator is called at most once
  by one \<^verbatim>\<open>execute\<close>, so its behaviour in that invocation is a function of the
  arguments. \<^verbatim>\<open>time.time()\<close> is read at line 165 (\<open>time_at_check\<close>, only when user and
  group match the stored ones) and at line 178 (\<open>time_at_update\<close>). \<open>POKE_DEBUG\<close> is
  the module's global, \<^verbatim>\<open>True\<close> as shipped.
\<close>

record host =
  unicode :: unicode_db
  POKE_DEBUG :: bool
  get_person_id_by_name :: "pyval \<Rightarrow> pyval outcome"
  get_person_value :: "pyval \<Rightarrow> pystr \<Rightarrow> pyval outcome"
  send_command :: "pystr \<Rightarrow> (pystr \<times> pyval) list \<Rightarrow> pystr \<Rightarrow> pyval outcome"
  store_action_info :: "store_args \<Rightarrow> unit outcome"
  send_text :: "pystr \<Rightarrow> unit outcome"
  time_at_check :: float64
  time_at_update :: float64

subsection \<open>String literals of the source\<close>

definition txt_lookup_error :: pystr where
  \<comment> \<open>\<^verbatim>\<open>"person_api <look-up failed>: "\<close>, line 116\<close>
  "txt_lookup_error = ascii ''person_api '' @ [0x67E5, 0x627E, 0x51FA, 0x9519] @ ascii '': ''"

definition txt_poked :: pystr where
  \<comment> \<open>\<^verbatim>\<open>"[<poked> "\<close>, lines 133 and 144\<close>
  "txt_poked = ascii ''['' @ [0x6233, 0x4E86, 0x6233] @ ascii '' ''"

definition txt_sent :: pystr where
  \<comment> \<open>\<^verbatim>\<open>"SEND_POKE <sent>"\<close>, lines 134 and 145\<close>
  "txt_sent = ascii ''SEND_POKE '' @ [0x5DF2, 0x53D1, 0x9001]"

definition txt_group_failed :: pystr where
  \<comment> \<open>\<^verbatim>\<open>"[<group poke failed>] "\<close>, line 136\<close>
  "txt_group_failed = ascii ''['' @ [0x7FA4, 0x6233, 0x5931, 0x8D25] @ ascii ''] ''"

definition txt_friend_failed :: pystr where
  \<comment> \<open>\<^verbatim>\<open>"[<friend poke failed>] "\<close>, line 147\<close>
  "txt_friend_failed = ascii ''['' @ [0x597D, 0x53CB, 0x6233, 0x5931, 0x8D25] @ ascii ''] ''"

definition txt_poke_args :: pystr where
  \<comment> \<open>\<^verbatim>\<open>"poke<parameters>: user_id="\<close>, line 156\<close>
  "txt_poke_args = ascii ''poke'' @ [0x53C2, 0x6570] @ ascii '': user_id=''"

definition txt_no_target :: pystr where
  \<comment> \<open>the no-target message, line 159\<close>
  "txt_no_target =
     [0x65E0, 0x6CD5, 0x627E, 0x5230, 0x76EE, 0x6807, 0x7528, 0x6237] @ ascii ''ID''"

definition txt_duplicate :: pystr where
  \<comment> \<open>the duplicate-target message, line 167\<close>
  "txt_duplicate = [0x907F, 0x514D, 0x91CD, 0x590D, 0x6233, 0x540C, 0x4E00, 0x4E2A, 0x4EBA]"

definition txt_none_marker :: pystr where
  \<comment> \<open>the one-character marker for "none", line 181\<close>
  "txt_none_marker = [0x65E0]"

definition txt_used_poke :: pystr where
  \<comment> \<open>\<^verbatim>\<open>"<used poke, reason: >"\<close>, line 185\<close>
  "txt_used_poke =
     [0x4F7F, 0x7528, 0x4E86, 0x6233, 0x4E00, 0x6233, 0xFF0C, 0x539F, 0x56E0, 0xFF1A]"

definition txt_success :: pystr where
  \<comment> \<open>the success message, line 190\<close>
  "txt_success = [0x6233, 0x4E00, 0x6233, 0x6210, 0x529F]"

definition txt_failed :: pystr where
  \<comment> \<open>\<^verbatim>\<open>"<poke failed>: "\<close>, lines 193 and 194\<close>
  "txt_failed = [0x6233, 0x4E00, 0x6233, 0x5931, 0x8D25] @ ascii '': ''"

section \<open>Target resolution: \<^verbatim>\<open>get_user_and_group_id\<close>\<close>

text \<open>
  Lines 90 to 101: the group id from the invocation data, then from the message, the
  chat stream and the instance attribute, each consulted only while the group id is
  still falsy; at the end the string \<^verbatim>\<open>'None'\<close> becomes \<^verbatim>\<open>None\<close>.
\<close>

definition group_from_message :: "action \<Rightarrow> pyval \<Rightarrow> pyval" where
  "group_from_message a g =
     (case message a of
        Some (Message (Some mi)) \<Rightarrow> if \<not> truthy g then mi_group_id mi else g
      | _ \<Rightarrow> g)"

definition group_from_chat_stream :: "action \<Rightarrow> pyval \<Rightarrow> pyval" where
  "group_from_chat_stream a g =
     (case chat_stream a of
        Some cs \<Rightarrow> if \<not> truthy g \<and> truthy (cs_group_id cs) then cs_group_id cs else g
      | None \<Rightarrow> g)"

definition group_from_attribute :: "action \<Rightarrow> pyval \<Rightarrow> pyval" where
  "group_from_attribute a g =
     (case group_id_attr a of
        Some v \<Rightarrow> if \<not> truthy g then v else g
      | None \<Rightarrow> g)"

definition resolve_group_id :: "action \<Rightarrow> pyval" where
  "resolve_group_id a =
     (let group_id = dict_get (action_data a) (ascii ''group_id'');
          group_id = group_from_message a group_id;
          group_id = group_from_chat_stream a group_id;
          group_id = group_from_attribute a group_id
      in if group_id = PStr (ascii ''None'') then PNone else group_id)"

text \<open>
  Lines 109 to 116, the \<^verbatim>\<open>try\<close> block around the person API: the user id when both
  look-ups return something truthy, nothing otherwise; an exception of either call is
  logged and swallowed.
\<close>

definition lookup_person :: "host \<Rightarrow> pyval \<Rightarrow> pyval option \<times> event list" where
  "lookup_person h name =
     (case get_person_id_by_name h name of
        Raise e \<Rightarrow>
          (None, [GetPersonIdByName name, LoggerError (txt_lookup_error @ description e)])
      | Return person_id \<Rightarrow>
          if truthy person_id
          then (case get_person_value h person_id (ascii ''user_id'') of
                  Raise e \<Rightarrow>
                    (None, [GetPersonIdByName name,
                            GetPersonValue person_id (ascii ''user_id''),
                            LoggerError (txt_lookup_error @ description e)])
                | Return uid \<Rightarrow>
                    (if truthy uid then Some uid else None,
                     [GetPersonIdByName name, GetPersonValue person_id (ascii ''user_id'')]))
          else (None, [GetPersonIdByName name]))"

text \<open>Lines 119 to 126: the scan of the response text.\<close>

definition scan_response_text :: "host \<Rightarrow> action \<Rightarrow> pyval \<Rightarrow> pyval \<times> pyval" where
  "scan_response_text h a group_id =
     (let match_group = re_search (unicode h) (ascii ''group_id:'') (llm_response_text a);
          match_user = re_search (unicode h) (ascii ''user_id:'') (llm_response_text a);
          group_id = (case match_group of Some g \<Rightarrow> PStr g | None \<Rightarrow> group_id)
      in case match_user of
           Some u \<Rightarrow> (PStr u, group_id)
         | None \<Rightarrow> (PNone, PNone))"

text \<open>The method: the pair it returns and the calls it made.\<close>

definition get_user_and_group_id :: "host \<Rightarrow> action \<Rightarrow> (pyval \<times> pyval) \<times> event list" where
  "get_user_and_group_id h a =
     (let user_id_or_name = dict_get (action_data a) (ascii ''user_id'');
          group_id = resolve_group_id a
      in if truthy user_id_or_name \<and> py_isdigit (unicode h) (py_str user_id_or_name)
         then ((PStr (py_str user_id_or_name), group_id), [])
         else
           (let (found, evs) =
                  (if truthy user_id_or_name then lookup_person h user_id_or_name
                   else (None, []))
            in case found of
                 Some uid \<Rightarrow> ((uid, group_id), evs)
               | None \<Rightarrow> (scan_response_text h a group_id, evs)))"

section \<open>Dispatch: \<^verbatim>\<open>_send_group_poke\<close> and \<^verbatim>\<open>_send_friend_poke\<close>\<close>

text \<open>
  Both methods return a pair of a flag and a result: \<^verbatim>\<open>(True, {...})\<close> or
  \<^verbatim>\<open>(False, str(e))\<close>. \<open>Sent ack\<close> is the first shape and \<open>Failed msg\<close> the second, so
  the test \<^verbatim>\<open>if ok\<close> of line 180 is the case distinction on the result.
\<close>

datatype poke_result = Sent "(pystr \<times> pystr) list" | Failed pystr

definition poke_ack :: "(pystr \<times> pystr) list" where
  "poke_ack = [(ascii ''status'', ascii ''ok''), (ascii ''msg'', txt_sent)]"

definition display_message :: "action \<Rightarrow> pyval \<Rightarrow> pystr" where
  \<comment> \<open>the f-string of lines 133 and 144 around \<^verbatim>\<open>self.action_data.get("user_id", user_id)\<close>\<close>
  "display_message a user_id =
     txt_poked @ py_str (dict_get_default (action_data a) (ascii ''user_id'') user_id)
       @ ascii '']''"

definition send_group_poke ::
  "host \<Rightarrow> action \<Rightarrow> pyval \<Rightarrow> pyval \<Rightarrow> pyval \<Rightarrow> poke_result \<times> event list" where
  "send_group_poke h a group_id reply_id user_id =
     (let cmd = SendCommand (ascii ''SEND_POKE'') [(ascii ''qq_id'', user_id)]
                  (display_message a user_id)
      in case send_command h (ascii ''SEND_POKE'') [(ascii ''qq_id'', user_id)]
                (display_message a user_id) of
           Return _ \<Rightarrow> (Sent poke_ack, [cmd])
         | Raise e \<Rightarrow>
             (Failed (description e),
              [cmd, LoggerError (txt_group_failed @ description e)]))"

definition send_friend_poke :: "host \<Rightarrow> action \<Rightarrow> pyval \<Rightarrow> poke_result \<times> event list" where
  "send_friend_poke h a user_id =
     (let cmd = SendCommand (ascii ''SEND_POKE'') [(ascii ''qq_id'', user_id)]
                  (display_message a user_id)
      in case send_command h (ascii ''SEND_POKE'') [(ascii ''qq_id'', user_id)]
                (display_message a user_id) of
           Return _ \<Rightarrow> (Sent poke_ack, [cmd])
         | Raise e \<Rightarrow>
             (Failed (description e),
              [cmd, LoggerError (txt_friend_failed @ description e)]))"

section \<open>Orchestration: \<^verbatim>\<open>execute\<close>\<close>

text \<open>The condition of lines 162 to 166.\<close>

definition cooldown_active :: "host \<Rightarrow> action \<Rightarrow> pyval \<Rightarrow> pyval \<Rightarrow> bool" where
  "cooldown_active h a user_id group_id =
     (last_poke_user a = user_id \<and> last_poke_group a = group_id
      \<and> float_lt_int (float_sub (time_at_check h) (last_poke_time a)) 300)"

text \<open>Lines 170 to 175: the choice of the path, and the group that is stored.\<close>

definition dispatch :: "host \<Rightarrow> action \<Rightarrow> pyval \<Rightarrow> pyval \<Rightarrow> pyval \<Rightarrow> poke_result \<times> event list" where
  "dispatch h a group_id reply_id user_id =
     (if truthy group_id then send_group_poke h a group_id reply_id user_id
      else send_friend_poke h a user_id)"

definition stored_group :: "pyval \<Rightarrow> pyval" where
  "stored_group group_id = (if truthy group_id then group_id else PNone)"

text \<open>Lines 181 to 189: the reason and the record handed to the action store.\<close>

definition log_reason :: "action \<Rightarrow> pyval" where
  "log_reason a =
     dict_get_default (action_data a) (ascii ''reason'')
       (if truthy (reasoning a) then reasoning a else PStr txt_none_marker)"

definition log_record :: "action \<Rightarrow> store_args" where
  "log_record a =
     \<lparr>arg_chat_stream = chat_stream a,
      arg_action_build_into_prompt = True,
      arg_action_prompt_display = txt_used_poke @ py_str (log_reason a),
      arg_action_done = True,
      arg_action_data = [(ascii ''reason'', log_reason a)],
      arg_action_name = ascii ''poke''\<rparr>"

definition debug_line :: "pyval \<Rightarrow> pyval \<Rightarrow> pystr" where
  \<comment> \<open>the f-string of line 156\<close>
  "debug_line user_id group_id =
     txt_poke_args @ py_str user_id @ ascii '', group_id='' @ py_str group_id"

text \<open>
  The tail of \<^verbatim>\<open>execute\<close> after the dispatch and the update of the cooldown state
  (lines 180 to 194). The result is \<open>Inr (flag, message)\<close> when the method returns
  and \<open>Inl e\<close> when the exception \<open>e\<close> of the action store or of \<^verbatim>\<open>send_text\<close>
  leaves it; the second component lists the calls made.
\<close>

definition finish ::
  "host \<Rightarrow> action \<Rightarrow> poke_result \<Rightarrow> (exception + bool \<times> pystr) \<times> event list" where
  "finish h a r =
     (case r of
        Sent _ \<Rightarrow>
          (case store_action_info h (log_record a) of
             Return _ \<Rightarrow> (Inr (True, txt_success), [StoreActionInfo (log_record a)])
           | Raise e \<Rightarrow> (Inl e, [StoreActionInfo (log_record a)]))
      | Failed result \<Rightarrow>
          if POKE_DEBUG h
          then (case send_text h (txt_failed @ result) of
                  Return _ \<Rightarrow> (Inr (False, txt_failed @ result), [SendText (txt_failed @ result)])
                | Raise e \<Rightarrow> (Inl e, [SendText (txt_failed @ result)]))
          else (Inr (False, txt_failed @ result), []))"

text \<open>
  \<^verbatim>\<open>execute\<close>: the result, the instance after the call and the calls made, in order.
\<close>

definition execute ::
  "host \<Rightarrow> action \<Rightarrow> (exception + bool \<times> pystr) \<times> action \<times> event list" where
  "execute h a =
     (let ((user_id, group_id), evs0) = get_user_and_group_id h a;
          reply_id = dict_get (action_data a) (ascii ''reply_id'');
          evs1 = evs0 @ (if POKE_DEBUG h then [LoggerInfo (debug_line user_id group_id)] else [])
      in if \<not> truthy user_id then (Inr (False, txt_no_target), a, evs1)
         else if cooldown_active h a user_id group_id
         then (Inr (False, txt_duplicate), a, evs1)
         else
           (let (r, evs2) = dispatch h a group_id reply_id user_id;
                a' = a\<lparr>last_poke_group := stored_group group_id,
                       last_poke_user := user_id,
                       last_poke_time := time_at_update h\<rparr>;
                (res, evs3) = finish h a' r
            in (res, a', evs1 @ evs2 @ evs3)))"

section \<open>Observations on a run\<close>

text \<open>
  What the properties below speak about: the dispatch commands and the writes to the
  action store among the calls of a run, the outcome of the transport call that a
  dispatch to \<open>user_id\<close> makes, and the state an invocation is in when \<^verbatim>\<open>execute\<close> gets
  past both early returns.
\<close>

fun is_dispatch :: "event \<Rightarrow> bool" where
  "is_dispatch (SendCommand _ _ _) = True"
| "is_dispatch _ = False"

fun is_log_write :: "event \<Rightarrow> bool" where
  "is_log_write (StoreActionInfo _) = True"
| "is_log_write _ = False"

definition transport_outcome :: "host \<Rightarrow> action \<Rightarrow> pyval \<Rightarrow> pyval outcome" where
  "transport_outcome h a user_id =
     send_command h (ascii ''SEND_POKE'') [(ascii ''qq_id'', user_id)] (display_message a user_id)"

definition reaches_dispatch :: "host \<Rightarrow> action \<Rightarrow> pyval \<Rightarrow> pyval \<Rightarrow> bool" where
  "reaches_dispatch h a user_id group_id =
     (fst (get_user_and_group_id h a) = (user_id, group_id)
      \<and> truthy user_id \<and> \<not> cooldown_active h a user_id group_id)"

text \<open>
  The user reference of the invocation resolves nothing: it is missing or empty, or it
  is not numeric and the person API yields no user id for it.
\<close>

definition reference_unresolved :: "host \<Rightarrow> action \<Rightarrow> bool" where
  "reference_unresolved h a =
     (let name = dict_get (action_data a) (ascii ''user_id'')
      in \<not> truthy name
         \<or> (\<not> py_isdigit (unicode h) (py_str name) \<and> fst (lookup_person h name) = None))"

text \<open>The group the ambient context offers, source by source.\<close>

definition message_group :: "action \<Rightarrow> pyval" where
  "message_group a =
     (case message a of Some (Message (Some mi)) \<Rightarrow> mi_group_id mi | _ \<Rightarrow> PNone)"

definition chat_stream_group :: "action \<Rightarrow> pyval" where
  "chat_stream_group a = (case chat_stream a of Some cs \<Rightarrow> cs_group_id cs | None \<Rightarrow> PNone)"

definition none_string_to_absent :: "pyval \<Rightarrow> pyval" where
  "none_string_to_absent g = (if g = PStr (ascii ''None'') then PNone else g)"

text \<open>
  A Unicode database agrees with ASCII on the code points below 128; every database of
  a Python interpreter does.
\<close>

definition ascii_compatible :: "unicode_db \<Rightarrow> bool" where
  "ascii_compatible u =
     list_all (\<lambda>c. cp_isdigit u c = ascii_digit c \<and> cp_isdecimal u c = ascii_digit c
                   \<and> cp_isspace u c = ascii_space c) [0..<128]"

text \<open>No match of the pattern starts inside the prefix \<open>pre\<close> of the text \<open>pre @ s\<close>.\<close>

definition no_match_before :: "unicode_db \<Rightarrow> pystr \<Rightarrow> pystr \<Rightarrow> pystr \<Rightarrow> bool" where
  "no_match_before u lit pre s =
     list_all (\<lambda>i. match_at u lit (drop i (pre @ s)) = None) [0..<length pre]"



text \<open>The instance after lines 172 to 178.\<close>

definition after_dispatch :: "host \<Rightarrow> action \<Rightarrow> pyval \<Rightarrow> pyval \<Rightarrow> action" where
  "after_dispatch h a user_id group_id =
     a\<lparr>last_poke_group := stored_group group_id, last_poke_user := user_id,
       last_poke_time := time_at_update h\<rparr>"

subsection \<open>Sample invocations\<close>

definition sample_host :: host where
  "sample_host =
     \<lparr>unicode = ascii_db,
      POKE_DEBUG = True,
      get_person_id_by_name = (\<lambda>name. Return (PStr (ascii ''person-7''))),
      get_person_value = (\<lambda>person_id key. Return (PStr (ascii ''10001''))),
      send_command = (\<lambda>name payload display. Return PNone),
      store_action_info = (\<lambda>args. Return ()),
      send_text = (\<lambda>text. Return ()),
      time_at_check = Finite 1000 0,
      time_at_update = Finite 1001 0\<rparr>"

definition sample_action :: action where
  "sample_action =
     \<lparr>action_data = [ascii ''user_id'' \<mapsto> PStr (ascii ''10001''),
                     ascii ''group_id'' \<mapsto> PStr (ascii ''20002'')],
      message = None,
      chat_stream = None,
      group_id_attr = None,
      reasoning = PNone,
      llm_response_text = [],
      last_poke_user = PNone,
      last_poke_group = PNone,
      last_poke_time = Finite 0 0\<rparr>"

definition failing_resolver :: "pyval \<Rightarrow> pyval outcome" where
  "failing_resolver name = Raise (Exception (ascii ''no such person''))"

definition failing_send_text :: "pystr \<Rightarrow> unit outcome" where
  "failing_send_text text = Raise (Exception (ascii ''closed''))"

definition failing_transport :: "pystr \<Rightarrow> (pystr \<times> pyval) list \<Rightarrow> pystr \<Rightarrow> pyval outcome" where
  "failing_transport name payload display = Raise (Exception (ascii ''timeout''))"

section \<open>The three ways through \<^verbatim>\<open>execute\<close>\<close>

lemma execute_no_target:
  assumes "get_user_and_group_id h a = ((u, g), evs)" "\<not> truthy u"
  shows "execute h a =
    (Inr (False, txt_no_target), a,
     evs @ (if POKE_DEBUG h then [LoggerInfo (debug_line u g)] else []))"
  using assms by (simp add: execute_def)

lemma execute_duplicate:
  assumes "get_user_and_group_id h a = ((u, g), evs)" "truthy u" "cooldown_active h a u g"
  shows "execute h a =
    (Inr (False, txt_duplicate), a,
     evs @ (if POKE_DEBUG h then [LoggerInfo (debug_line u g)] else []))"
  using assms by (simp add: execute_def)

lemma execute_dispatch:
  assumes "get_user_and_group_id h a = ((u, g), evs)" "truthy u" "\<not> cooldown_active h a u g"
  shows "execute h a =
    (fst (finish h (after_dispatch h a u g)
            (fst (dispatch h a g (dict_get (action_data a) (ascii ''reply_id'')) u))),
     after_dispatch h a u g,
     evs @ (if POKE_DEBUG h then [LoggerInfo (debug_line u g)] else [])
       @ snd (dispatch h a g (dict_get (action_data a) (ascii ''reply_id'')) u)
       @ snd (finish h (after_dispatch h a u g)
            (fst (dispatch h a g (dict_get (action_data a) (ascii ''reply_id'')) u))))"
  using assms by (simp add: execute_def after_dispatch_def Let_def split: prod.splits)

text \<open>The sample invocation resolves to user 10001 in group 20002 and is not held back.\<close>

lemma sample_resolution:
  "unicode h = ascii_db \<Longrightarrow>
   get_user_and_group_id h sample_action
     = ((PStr (ascii ''10001''), PStr (ascii ''20002'')), [])"
  by (simp add: get_user_and_group_id_def dict_get_def py_isdigit_def resolve_group_id_def
      group_from_message_def group_from_chat_stream_def group_from_attribute_def
      sample_action_def ascii_db_def ascii_digit_def ascii_def)

lemma sample_reaches_dispatch:
  "unicode h = ascii_db \<Longrightarrow>
   reaches_dispatch h sample_action (PStr (ascii ''10001'')) (PStr (ascii ''20002''))"
  by (simp add: reaches_dispatch_def sample_resolution cooldown_active_def)
     (simp add: sample_action_def ascii_def)

text \<open>
  Which calls a stage can make: resolution sends no command and writes no log record,
  a dispatch sends exactly one command, and the tail of \<^verbatim>\<open>execute\<close> sends none and
  never ends with one of the two early messages.
\<close>

lemma resolution_quiet:
  "filter is_dispatch (snd (get_user_and_group_id h a)) = []"
  "filter is_log_write (snd (get_user_and_group_id h a)) = []"
  by (auto simp: get_user_and_group_id_def lookup_person_def Let_def
      split: outcome.splits option.splits prod.splits if_splits)


lemma dispatch_no_log_write:
  "filter is_log_write (snd (dispatch h a g r u)) = []"
  by (auto simp: dispatch_def send_group_poke_def send_friend_poke_def Let_def
      split: outcome.splits)


lemma finish_not_early:
  "fst (finish h a r) \<noteq> Inr (False, txt_no_target)"
  "fst (finish h a r) \<noteq> Inr (False, txt_duplicate)"
  by (auto simp: finish_def txt_failed_def txt_no_target_def txt_duplicate_def
      split: outcome.splits poke_result.splits)

text \<open>Resolution does not read the cooldown state.\<close>

lemma resolve_group_id_ignores_cooldown:
  "resolve_group_id (a\<lparr>last_poke_group := g, last_poke_user := u, last_poke_time := t\<rparr>)
     = resolve_group_id a"
  by (simp add: resolve_group_id_def group_from_message_def
      group_from_chat_stream_def group_from_attribute_def)

lemma scan_response_text_ignores_cooldown:
  "scan_response_text h (a\<lparr>last_poke_group := g, last_poke_user := u, last_poke_time := t\<rparr>)
     = scan_response_text h a"
  by (rule ext) (simp add: scan_response_text_def)

lemma resolution_ignores_cooldown:
  "get_user_and_group_id h (a\<lparr>last_poke_group := g, last_poke_user := u, last_poke_time := t\<rparr>)
     = get_user_and_group_id h a"
  unfolding get_user_and_group_id_def resolve_group_id_ignores_cooldown
    scan_response_text_ignores_cooldown
  by simp

lemma sample_first_run:
  "fst (snd (execute sample_host sample_action)) =
     sample_action\<lparr>last_poke_group := PStr (ascii ''20002''),
                   last_poke_user := PStr (ascii ''10001''),
                   last_poke_time := Finite 1001 0\<rparr>"
proof -
  have u: "unicode sample_host = ascii_db" by (simp add: sample_host_def)
  have nb: "\<not> cooldown_active sample_host sample_action
               (PStr (ascii ''10001'')) (PStr (ascii ''20002''))"
    and t: "truthy (PStr (ascii ''10001''))"
    using sample_reaches_dispatch [OF u] by (simp_all add: reaches_dispatch_def)
  from execute_dispatch [OF sample_resolution [OF u] t nb] show ?thesis
    by (simp add: after_dispatch_def stored_group_def sample_host_def ascii_def)
qed

text \<open>A sample invocation with a group reference and no user reference.\<close>

lemma sample_no_target:
  "get_user_and_group_id sample_host
     (sample_action\<lparr>action_data := [ascii ''group_id'' \<mapsto> PStr (ascii ''20002'')]\<rparr>)
   = ((PNone, PNone), [])"
  by (simp add: get_user_and_group_id_def dict_get_def scan_response_text_def match_at_def
      sample_action_def sample_host_def ascii_def)

text \<open>The group id of lines 90 to 101, source by source.\<close>

lemma resolve_group_id_chain:
  "resolve_group_id a =
     none_string_to_absent
       (group_from_attribute a
         (group_from_chat_stream a
           (group_from_message a (dict_get (action_data a) (ascii ''group_id'')))))"
  by (simp add: resolve_group_id_def Let_def none_string_to_absent_def)

lemma group_from_message_cases:
  "truthy g \<Longrightarrow> group_from_message a g = g"
  "\<not> truthy g \<Longrightarrow> truthy (message_group a) \<Longrightarrow> group_from_message a g = message_group a"
  "\<not> truthy g \<Longrightarrow> \<not> truthy (message_group a) \<Longrightarrow> \<not> truthy (group_from_message a g)"
  by (auto simp: group_from_message_def message_group_def split: option.splits message.splits)

lemma group_from_chat_stream_cases:
  "truthy g \<Longrightarrow> group_from_chat_stream a g = g"
  "\<not> truthy g \<Longrightarrow> truthy (chat_stream_group a) \<Longrightarrow>
     group_from_chat_stream a g = chat_stream_group a"
  "\<not> truthy g \<Longrightarrow> \<not> truthy (chat_stream_group a) \<Longrightarrow> group_from_chat_stream a g = g"
  by (auto simp: group_from_chat_stream_def chat_stream_group_def split: option.splits)

lemma group_from_attribute_cases:
  "truthy g \<Longrightarrow> group_from_attribute a g = g"
  "\<not> truthy g \<Longrightarrow> group_id_attr a = Some v \<Longrightarrow> group_from_attribute a g = v"
  "group_id_attr a = None \<Longrightarrow> group_from_attribute a g = g"
  by (auto simp: group_from_attribute_def split: option.splits)

lemma none_string_to_absent_falsy:
  "\<not> truthy g \<Longrightarrow> \<not> truthy (none_string_to_absent g)"
  by (simp add: none_string_to_absent_def)

text \<open>What a dispatch returns, and what the tail of \<^verbatim>\<open>execute\<close> does with it.\<close>

lemma dispatch_returns:
  "transport_outcome h a u = Return v \<Longrightarrow>
   dispatch h a g r u =
     (Sent poke_ack,
      [SendCommand (ascii ''SEND_POKE'') [(ascii ''qq_id'', u)] (display_message a u)])"
  by (simp add: dispatch_def send_group_poke_def send_friend_poke_def transport_outcome_def)

lemma dispatch_raises:
  "transport_outcome h a u = Raise e \<Longrightarrow>
   dispatch h a g r u =
     (Failed (description e),
      [SendCommand (ascii ''SEND_POKE'') [(ascii ''qq_id'', u)] (display_message a u),
       LoggerError ((if truthy g then txt_group_failed else txt_friend_failed)
                    @ description e)])"
  by (simp add: dispatch_def send_group_poke_def send_friend_poke_def transport_outcome_def)

lemma finish_log_writes:
  "filter is_log_write (snd (finish h a (Sent ack))) = [StoreActionInfo (log_record a)]"
  "filter is_log_write (snd (finish h a (Failed msg))) = []"
  by (auto simp: finish_def split: outcome.splits)

lemma log_record_ignores_cooldown:
  "log_record (after_dispatch h a u g) = log_record a"
  by (simp add: log_record_def log_reason_def after_dispatch_def)

lemma finish_failed:
  "finish h a (Failed msg) =
     (if POKE_DEBUG h
      then (case send_text h (txt_failed @ msg) of
              Return _ \<Rightarrow> Inr (False, txt_failed @ msg)
            | Raise e \<Rightarrow> Inl e,
            [SendText (txt_failed @ msg)])
      else (Inr (False, txt_failed @ msg), []))"
  by (simp add: finish_def split: outcome.splits)

text \<open>
  Two more sample runs: a response text that names a group and a user, and an
  invocation without a group.
\<close>

lemma sample_scan:
  "unicode h = ascii_db \<Longrightarrow>
   scan_response_text h
     (sample_action\<lparr>action_data := d,
                    llm_response_text := ascii ''group_id: 123 user_id: 456''\<rparr>) g
     = (PStr (ascii ''456''), PStr (ascii ''123''))"
  by (simp add: scan_response_text_def match_at_def match_digits_def
      ascii_db_def ascii_digit_def ascii_space_def ascii_def)

lemma sample_friend_resolution:
  "unicode h = ascii_db \<Longrightarrow>
   get_user_and_group_id h
     (sample_action\<lparr>action_data := [ascii ''user_id'' \<mapsto> PStr (ascii ''10001'')]\<rparr>)
   = ((PStr (ascii ''10001''), PNone), [])"
  by (simp add: get_user_and_group_id_def
      dict_get_def py_isdigit_def resolve_group_id_def group_from_message_def
      group_from_chat_stream_def group_from_attribute_def
      sample_action_def ascii_db_def ascii_digit_def ascii_def)

lemma sample_friend_reaches_dispatch:
  "unicode h = ascii_db \<Longrightarrow>
   reaches_dispatch h
     (sample_action\<lparr>action_data := [ascii ''user_id'' \<mapsto> PStr (ascii ''10001'')]\<rparr>)
     (PStr (ascii ''10001'')) PNone"
  by (simp add: reaches_dispatch_def sample_friend_resolution cooldown_active_def)
     (simp add: sample_action_def ascii_def)

text \<open>
  The search returns the first match: positions without a match are skipped, and a
  field \<^verbatim>\<open>group_id: 123\<close> or \<^verbatim>\<open>user_id: 456\<close> that no digit follows matches with exactly
  its digits.
\<close>

lemma ascii_compatibleD:
  assumes "ascii_compatible u" "c < 128"
  shows "cp_isdigit u c = ascii_digit c" "cp_isdecimal u c = ascii_digit c"
    "cp_isspace u c = ascii_space c"
  using assms by (simp_all add: ascii_compatible_def list_all_iff)

lemma no_match_before_Cons:
  "no_match_before u lit (c # pre) s =
     (match_at u lit (c # pre @ s) = None \<and> no_match_before u lit pre s)"
proof -
  have below: "list_all P [0..<n] = (\<forall>i<n. P i)" for P :: "nat \<Rightarrow> bool" and n
    by (auto simp: list_all_iff)
  show ?thesis
    unfolding no_match_before_def below by (simp add: All_less_Suc2)
qed

lemma re_search_skip:
  "no_match_before u lit pre s \<Longrightarrow> re_search u lit (pre @ s) = re_search u lit s"
  by (induction pre) (simp_all add: no_match_before_Cons)

lemma re_search_here:
  "match_at u lit s = Some ds \<Longrightarrow> re_search u lit s = Some ds"
  by (cases s) simp_all

lemma match_digits_append:
  "match_digits u post = None \<Longrightarrow> list_all (cp_isdecimal u) ds \<Longrightarrow> ds \<noteq> [] \<Longrightarrow>
   match_digits u (ds @ post) = Some ds"
  by (auto simp: match_digits_def Let_def list_all_iff split: if_splits)

lemma match_group_field:
  assumes "ascii_compatible u" "match_digits u post = None"
  shows "match_at u (ascii ''group_id:'') (ascii ''group_id: 123'' @ post) = Some (ascii ''123'')"
proof -
  have d: "match_digits u (ascii ''123'' @ post) = Some (ascii ''123'')"
    by (rule match_digits_append [OF assms(2)])
       (simp_all add: ascii_def ascii_compatibleD [OF assms(1)] ascii_digit_def)
  then show ?thesis
    by (simp add: match_at_def ascii_def ascii_compatibleD [OF assms(1)] ascii_space_def)
qed

lemma match_user_field:
  assumes "ascii_compatible u" "match_digits u post = None"
  shows "match_at u (ascii ''user_id:'') (ascii ''user_id: 456'' @ post) = Some (ascii ''456'')"
proof -
  have d: "match_digits u (ascii ''456'' @ post) = Some (ascii ''456'')"
    by (rule match_digits_append [OF assms(2)])
       (simp_all add: ascii_def ascii_compatibleD [OF assms(1)] ascii_digit_def)
  then show ?thesis
    by (simp add: match_at_def ascii_def ascii_compatibleD [OF assms(1)] ascii_space_def)
qed

lemma scan_after_unresolved_reference:
  "reference_unresolved h a \<Longrightarrow>
   fst (get_user_and_group_id h a) = scan_response_text h a (resolve_group_id a)"
  by (auto simp: reference_unresolved_def get_user_and_group_id_def Let_def
      split: prod.splits option.splits)

lemma ascii_db_compatible: "ascii_compatible ascii_db"
  by (simp add: ascii_compatible_def ascii_db_def list_all_iff)

text \<open>
  The comparison of a finite float with an integer is the comparison of its value, and
  a subtraction that does not round yields the exact difference.
\<close>

lemmas float_eval = Let_def round_binary64_def round_half_even_def bit_length.simps

text \<open>
  The rounding at work: \<open>2 ^ 53 + 1\<close> is a tie and goes to the even neighbour \<open>2 ^ 53\<close>,
  \<open>2 ^ 53 + 3\<close> is a tie and goes to \<open>2 ^ 53 + 4\<close>, the largest finite value minus its
  negative overflows, and two readings one and a half seconds apart in the year 2023
  subtract exactly.
\<close>

lemma float_sub_examples:
  "float_sub (Finite 9007199254740992 0) (Finite (- 1) 0) = Finite 4503599627370496 1"
  "float_sub (Finite 9007199254740992 0) (Finite (- 3) 0) = Finite 4503599627370498 1"
  "float_sub (Finite 9007199254740991 971) (Finite (- 9007199254740991) 971) = PosInf"
  "float_sub (Finite 6800000007 (- 2)) (Finite 6800000001 (- 2)) = Finite 6 (- 2)"
  by (simp_all add: float_eval)






section \<open>Target resolution\<close>

text \<open>
  Claim C3. When the invocation carries a user reference that \<^verbatim>\<open>isdigit()\<close> accepts (it
  is not empty and all its characters are digits), \<^verbatim>\<open>get_user_and_group_id\<close> returns
  that very string as the user id, together with the group id of lines 90 to 101, and
  makes no call at all: the person API is not consulted, whatever it would have
  answered.
\<close>

theorem numeric_reference_short_circuits:
  assumes "action_data a (ascii ''user_id'') = Some (PStr s)"
    and "py_isdigit (unicode h) s"
  shows "get_user_and_group_id h a = ((PStr s, resolve_group_id a), [])"
  using assms by (auto simp: get_user_and_group_id_def dict_get_def py_isdigit_def)

theorem numeric_reference_short_circuits_witness:
  "get_user_and_group_id (sample_host\<lparr>get_person_id_by_name := failing_resolver\<rparr>) sample_action
     = ((PStr (ascii ''10001''), PStr (ascii ''20002'')), [])"
  using numeric_reference_short_circuits
    [of sample_action "ascii ''10001''" "sample_host\<lparr>get_person_id_by_name := failing_resolver\<rparr>"]
  by (simp add: py_isdigit_def resolve_group_id_def dict_get_def
      group_from_message_def group_from_chat_stream_def group_from_attribute_def
      sample_host_def sample_action_def ascii_db_def ascii_digit_def ascii_def)

text \<open>
  Claim C4. The invocation carries a user reference \<open>name\<close> that is not empty and not
  numeric. If \<^verbatim>\<open>person_api.get_person_id_by_name\<close> raises, or returns a person id for
  which \<^verbatim>\<open>person_api.get_person_value\<close> raises, the exception is caught, one error line
  with its description is logged, and the method returns what the scan of the response
  text returns (lines 119 to 126), started from the group id found so far: the lookup
  failure does not end the resolution. If both calls return something truthy, the method
  returns the user id the person API gave, with the group id found so far, and logs
  nothing.
\<close>

theorem resolver_failure_falls_through:
  assumes "dict_get (action_data a) (ascii ''user_id'') = name"
    and "truthy name"
    and "\<not> py_isdigit (unicode h) (py_str name)"
  shows "(\<forall>e. get_person_id_by_name h name = Raise e \<longrightarrow>
            get_user_and_group_id h a =
              (scan_response_text h a (resolve_group_id a),
               [GetPersonIdByName name, LoggerError (txt_lookup_error @ description e)]))
       \<and> (\<forall>person_id e.
            get_person_id_by_name h name = Return person_id \<and> truthy person_id
            \<and> get_person_value h person_id (ascii ''user_id'') = Raise e \<longrightarrow>
            get_user_and_group_id h a =
              (scan_response_text h a (resolve_group_id a),
               [GetPersonIdByName name, GetPersonValue person_id (ascii ''user_id''),
                LoggerError (txt_lookup_error @ description e)]))
       \<and> (\<forall>person_id uid.
            get_person_id_by_name h name = Return person_id \<and> truthy person_id
            \<and> get_person_value h person_id (ascii ''user_id'') = Return uid \<and> truthy uid \<longrightarrow>
            get_user_and_group_id h a =
              ((uid, resolve_group_id a),
               [GetPersonIdByName name, GetPersonValue person_id (ascii ''user_id'')]))"
  using assms by (simp add: get_user_and_group_id_def lookup_person_def)

theorem resolver_failure_falls_through_witness:
  "get_user_and_group_id (sample_host\<lparr>get_person_id_by_name := failing_resolver\<rparr>)
     (sample_action\<lparr>action_data := [ascii ''user_id'' \<mapsto> PStr (ascii ''Alice'')],
                    llm_response_text := ascii ''group_id: 123 user_id: 456''\<rparr>)
     = ((PStr (ascii ''456''), PStr (ascii ''123'')),
        [GetPersonIdByName (PStr (ascii ''Alice'')),
         LoggerError (txt_lookup_error @ ascii ''no such person'')])
   \<and> get_user_and_group_id
       (sample_host\<lparr>get_person_value := (\<lambda>person_id key. Raise (Exception (ascii ''busy'')))\<rparr>)
       (sample_action\<lparr>action_data := [ascii ''user_id'' \<mapsto> PStr (ascii ''Alice'')],
                      llm_response_text := ascii ''group_id: 123 user_id: 456''\<rparr>)
     = ((PStr (ascii ''456''), PStr (ascii ''123'')),
        [GetPersonIdByName (PStr (ascii ''Alice'')),
         GetPersonValue (PStr (ascii ''person-7'')) (ascii ''user_id''),
         LoggerError (txt_lookup_error @ ascii ''busy'')])
   \<and> get_user_and_group_id sample_host
       (sample_action\<lparr>action_data := [ascii ''user_id'' \<mapsto> PStr (ascii ''Alice'')],
                      llm_response_text := ascii ''group_id: 123 user_id: 456''\<rparr>)
     = ((PStr (ascii ''10001''), PNone),
        [GetPersonIdByName (PStr (ascii ''Alice'')),
         GetPersonValue (PStr (ascii ''person-7'')) (ascii ''user_id'')])"
proof -
  let ?a = "sample_action\<lparr>action_data := [ascii ''user_id'' \<mapsto> PStr (ascii ''Alice'')],
                          llm_response_text := ascii ''group_id: 123 user_id: 456''\<rparr>"
  let ?h1 = "sample_host\<lparr>get_person_id_by_name := failing_resolver\<rparr>"
  let ?h2 = "sample_host\<lparr>get_person_value :=
               (\<lambda>person_id key. Raise (Exception (ascii ''busy'')))\<rparr>"
  have name: "dict_get (action_data ?a) (ascii ''user_id'') = PStr (ascii ''Alice'')"
    by (simp add: dict_get_def)
  have t: "truthy (PStr (ascii ''Alice''))"
    by (simp add: ascii_def)
  have nd: "\<not> py_isdigit (unicode h) (py_str (PStr (ascii ''Alice'')))"
    if "unicode h = ascii_db" for h
    using that by (simp add: py_isdigit_def ascii_db_def ascii_digit_def ascii_def)
  have g: "resolve_group_id ?a = PNone"
    by (simp add: resolve_group_id_def dict_get_def group_from_message_def
        group_from_chat_stream_def group_from_attribute_def sample_action_def ascii_def)
  have u: "unicode ?h1 = ascii_db" "unicode ?h2 = ascii_db" "unicode sample_host = ascii_db"
    by (simp_all add: sample_host_def)
  have one: "get_user_and_group_id ?h1 ?a
     = ((PStr (ascii ''456''), PStr (ascii ''123'')),
        [GetPersonIdByName (PStr (ascii ''Alice'')),
         LoggerError (txt_lookup_error @ ascii ''no such person'')])"
    using resolver_failure_falls_through [OF name t nd [OF u(1)]]
    by (simp add: sample_scan [OF u(1)] failing_resolver_def)
  have two: "get_user_and_group_id ?h2 ?a
     = ((PStr (ascii ''456''), PStr (ascii ''123'')),
        [GetPersonIdByName (PStr (ascii ''Alice'')),
         GetPersonValue (PStr (ascii ''person-7'')) (ascii ''user_id''),
         LoggerError (txt_lookup_error @ ascii ''busy'')])"
    using resolver_failure_falls_through [OF name t nd [OF u(2)]]
    by (simp add: sample_scan [OF u(2)]) (simp add: sample_host_def ascii_def)
  have three: "get_user_and_group_id sample_host ?a
     = ((PStr (ascii ''10001''), PNone),
        [GetPersonIdByName (PStr (ascii ''Alice'')),
         GetPersonValue (PStr (ascii ''person-7'')) (ascii ''user_id'')])"
    using resolver_failure_falls_through [OF name t nd [OF u(3)]]
    by (simp add: g) (simp add: sample_host_def ascii_def)
  from one two three show ?thesis by simp
qed

text \<open>
  Claim C5. The user reference resolved nothing, so the method comes to the scan of
  the response text. In general its result is: when \<^verbatim>\<open>user_id:\s*(\d+)\<close> matches, the
  matched digits as the user id, together with the digits matched by
  \<^verbatim>\<open>group_id:\s*(\d+)\<close> when that pattern matches (they replace the group id found so
  far) and with the group id found so far when it does not; when the user pattern does
  not match, \<^verbatim>\<open>(None, None)\<close>. In particular, when the text contains \<^verbatim>\<open>group_id: 123\<close> and
  \<^verbatim>\<open>user_id: 456\<close>, neither followed by a further digit, and no other field precedes
  them (no match of the group pattern starts before the first, none of the user pattern
  before the second), the result is user id \<^verbatim>\<open>"456"\<close> and group id \<^verbatim>\<open>"123"\<close>.
\<close>

theorem text_scan_resolution:
  assumes "reference_unresolved h a"
  shows "fst (get_user_and_group_id h a) =
           (case re_search (unicode h) (ascii ''user_id:'') (llm_response_text a) of
              Some uid \<Rightarrow>
                (PStr uid,
                 case re_search (unicode h) (ascii ''group_id:'') (llm_response_text a) of
                   Some gid \<Rightarrow> PStr gid
                 | None \<Rightarrow> resolve_group_id a)
            | None \<Rightarrow> (PNone, PNone))
         \<and> (ascii_compatible (unicode h)
              \<and> llm_response_text a = pre_g @ ascii ''group_id: 123'' @ post_g
              \<and> no_match_before (unicode h) (ascii ''group_id:'') pre_g
                    (ascii ''group_id: 123'' @ post_g)
              \<and> match_digits (unicode h) post_g = None
              \<and> llm_response_text a = pre_u @ ascii ''user_id: 456'' @ post_u
              \<and> no_match_before (unicode h) (ascii ''user_id:'') pre_u
                    (ascii ''user_id: 456'' @ post_u)
              \<and> match_digits (unicode h) post_u = None
            \<longrightarrow> fst (get_user_and_group_id h a) = (PStr (ascii ''456''), PStr (ascii ''123'')))"
proof -
  have general: "fst (get_user_and_group_id h a) =
           (case re_search (unicode h) (ascii ''user_id:'') (llm_response_text a) of
              Some uid \<Rightarrow>
                (PStr uid,
                 case re_search (unicode h) (ascii ''group_id:'') (llm_response_text a) of
                   Some gid \<Rightarrow> PStr gid
                 | None \<Rightarrow> resolve_group_id a)
            | None \<Rightarrow> (PNone, PNone))"
    by (simp add: scan_after_unresolved_reference [OF assms] scan_response_text_def
        split: option.splits)
  have example: "fst (get_user_and_group_id h a) = (PStr (ascii ''456''), PStr (ascii ''123''))"
    if c: "ascii_compatible (unicode h)"
      and tg: "llm_response_text a = pre_g @ ascii ''group_id: 123'' @ post_g"
      and ng: "no_match_before (unicode h) (ascii ''group_id:'') pre_g
                    (ascii ''group_id: 123'' @ post_g)"
      and eg: "match_digits (unicode h) post_g = None"
      and tu: "llm_response_text a = pre_u @ ascii ''user_id: 456'' @ post_u"
      and nu: "no_match_before (unicode h) (ascii ''user_id:'') pre_u
                    (ascii ''user_id: 456'' @ post_u)"
      and eu: "match_digits (unicode h) post_u = None"
  proof -
    have g: "re_search (unicode h) (ascii ''group_id:'') (llm_response_text a)
               = Some (ascii ''123'')"
      unfolding tg re_search_skip [OF ng]
      by (rule re_search_here [OF match_group_field [OF c eg]])
    have u: "re_search (unicode h) (ascii ''user_id:'') (llm_response_text a)
               = Some (ascii ''456'')"
      unfolding tu re_search_skip [OF nu]
      by (rule re_search_here [OF match_user_field [OF c eu]])
    show ?thesis by (simp add: general g u)
  qed
  from general example show ?thesis by blast
qed

theorem text_scan_resolution_witness:
  "fst (get_user_and_group_id sample_host
     (sample_action\<lparr>action_data := [ascii ''group_id'' \<mapsto> PStr (ascii ''20002'')],
                    llm_response_text := ascii ''ok group_id: 123, user_id: 456.''\<rparr>))
     = (PStr (ascii ''456''), PStr (ascii ''123''))
   \<and> resolve_group_id
     (sample_action\<lparr>action_data := [ascii ''group_id'' \<mapsto> PStr (ascii ''20002'')],
                    llm_response_text := ascii ''ok group_id: 123, user_id: 456.''\<rparr>)
     = PStr (ascii ''20002'')"
proof -
  let ?a = "sample_action\<lparr>action_data := [ascii ''group_id'' \<mapsto> PStr (ascii ''20002'')],
                    llm_response_text := ascii ''ok group_id: 123, user_id: 456.''\<rparr>"
  have u: "unicode sample_host = ascii_db" by (simp add: sample_host_def)
  have unresolved: "reference_unresolved sample_host ?a"
    by (simp add: reference_unresolved_def dict_get_def ascii_def)
  have tg: "llm_response_text ?a
              = ascii ''ok '' @ ascii ''group_id: 123'' @ ascii '', user_id: 456.''"
    and tu: "llm_response_text ?a
              = ascii ''ok group_id: 123, '' @ ascii ''user_id: 456'' @ ascii ''.''"
    by (simp_all add: ascii_def)
  have ng: "no_match_before (unicode sample_host) (ascii ''group_id:'') (ascii ''ok '')
              (ascii ''group_id: 123'' @ ascii '', user_id: 456.'')"
    unfolding u by code_simp
  have nu: "no_match_before (unicode sample_host) (ascii ''user_id:'')
              (ascii ''ok group_id: 123, '') (ascii ''user_id: 456'' @ ascii ''.'')"
    unfolding u by code_simp
  have eg: "match_digits (unicode sample_host) (ascii '', user_id: 456.'') = None"
    and eu: "match_digits (unicode sample_host) (ascii ''.'') = None"
    unfolding u by (simp_all add: match_digits_def ascii_db_def ascii_digit_def ascii_def)
  have c: "ascii_compatible (unicode sample_host)"
    unfolding u by (rule ascii_db_compatible)
  have g: "resolve_group_id ?a = PStr (ascii ''20002'')"
    by (simp add: resolve_group_id_def dict_get_def group_from_message_def
        group_from_chat_stream_def group_from_attribute_def sample_action_def ascii_def)
  from text_scan_resolution [OF unresolved,
      of "ascii ''ok ''" "ascii '', user_id: 456.''" "ascii ''ok group_id: 123, ''" "ascii ''.''"]
    tg tu ng nu eg eu c
  have "fst (get_user_and_group_id sample_host ?a) = (PStr (ascii ''456''), PStr (ascii ''123''))"
    by blast
  then show ?thesis using g by blast
qed

text \<open>
  Claim C7, as the code has it. The group id that lines 90 to 101 compute. A non-empty
  group reference in the invocation data wins; otherwise the group id of the message
  metadata when it is non-empty; otherwise that of the chat stream when it is
  non-empty; otherwise the instance attribute \<^verbatim>\<open>group_id\<close> when the instance has one;
  and when none of the four offers anything the result is absent or empty. The string
  \<^verbatim>\<open>'None'\<close> is tested after this selection, on the value selected: that value becomes
  \<^verbatim>\<open>None\<close>, so the result is never that string. A group reference \<^verbatim>\<open>'None'\<close> in the
  invocation data is a non-empty reference like any other: it is selected, the ambient
  context is not consulted, and the group id is absent. This is the group id
  \<^verbatim>\<open>get_user_and_group_id\<close> returns whenever the user id comes from the user reference
  (numeric, or mapped by the person API).
\<close>

theorem group_priority:
  "(truthy (dict_get (action_data a) (ascii ''group_id'')) \<longrightarrow>
      resolve_group_id a = none_string_to_absent (dict_get (action_data a) (ascii ''group_id'')))
   \<and> (\<not> truthy (dict_get (action_data a) (ascii ''group_id'')) \<and> truthy (message_group a) \<longrightarrow>
      resolve_group_id a = none_string_to_absent (message_group a))
   \<and> (\<not> truthy (dict_get (action_data a) (ascii ''group_id'')) \<and> \<not> truthy (message_group a)
        \<and> truthy (chat_stream_group a) \<longrightarrow>
      resolve_group_id a = none_string_to_absent (chat_stream_group a))
   \<and> (\<not> truthy (dict_get (action_data a) (ascii ''group_id'')) \<and> \<not> truthy (message_group a)
        \<and> \<not> truthy (chat_stream_group a) \<longrightarrow>
      (case group_id_attr a of
         Some v \<Rightarrow> resolve_group_id a = none_string_to_absent v
       | None \<Rightarrow> \<not> truthy (resolve_group_id a)))
   \<and> resolve_group_id a \<noteq> PStr (ascii ''None'')
   \<and> (dict_get (action_data a) (ascii ''group_id'') = PStr (ascii ''None'') \<longrightarrow>
        resolve_group_id a = PNone)
   \<and> (\<not> reference_unresolved h a \<longrightarrow>
        snd (fst (get_user_and_group_id h a)) = resolve_group_id a)"
proof -
  let ?g0 = "dict_get (action_data a) (ascii ''group_id'')"
  have 1: "truthy ?g0 \<longrightarrow> resolve_group_id a = none_string_to_absent ?g0"
    by (simp add: resolve_group_id_chain group_from_message_cases
        group_from_chat_stream_cases group_from_attribute_cases)
  have 2: "\<not> truthy ?g0 \<and> truthy (message_group a) \<longrightarrow>
      resolve_group_id a = none_string_to_absent (message_group a)"
    by (simp add: resolve_group_id_chain group_from_message_cases
        group_from_chat_stream_cases group_from_attribute_cases)
  have 3: "\<not> truthy ?g0 \<and> \<not> truthy (message_group a) \<and> truthy (chat_stream_group a) \<longrightarrow>
      resolve_group_id a = none_string_to_absent (chat_stream_group a)"
    by (simp add: resolve_group_id_chain group_from_message_cases
        group_from_chat_stream_cases group_from_attribute_cases)
  have 4: "\<not> truthy ?g0 \<and> \<not> truthy (message_group a) \<and> \<not> truthy (chat_stream_group a) \<longrightarrow>
      (case group_id_attr a of
         Some v \<Rightarrow> resolve_group_id a = none_string_to_absent v
       | None \<Rightarrow> \<not> truthy (resolve_group_id a))"
    by (simp add: resolve_group_id_chain group_from_message_cases
        group_from_chat_stream_cases group_from_attribute_cases
        none_string_to_absent_falsy split: option.splits)
  have 5: "resolve_group_id a \<noteq> PStr (ascii ''None'')"
    by (simp add: resolve_group_id_chain none_string_to_absent_def)
  have 6: "\<not> reference_unresolved h a \<longrightarrow>
        snd (fst (get_user_and_group_id h a)) = resolve_group_id a"
    by (auto simp: reference_unresolved_def get_user_and_group_id_def Let_def
        split: prod.splits option.splits)
  have 7: "dict_get (action_data a) (ascii ''group_id'') = PStr (ascii ''None'') \<longrightarrow>
        resolve_group_id a = PNone"
  proof
    assume e: "dict_get (action_data a) (ascii ''group_id'') = PStr (ascii ''None'')"
    then have "truthy (dict_get (action_data a) (ascii ''group_id''))"
      by (simp add: ascii_def)
    with 1 e show "resolve_group_id a = PNone"
      by (simp add: none_string_to_absent_def)
  qed
  from 1 2 3 4 5 6 7 show ?thesis by blast
qed

theorem group_priority_witness:
  "resolve_group_id
     (sample_action\<lparr>message := Some (Message (Some (MessageInfo (PStr (ascii ''30003''))))),
                    chat_stream := Some (ChatStream (PStr (ascii ''40004''))),
                    group_id_attr := Some (PStr (ascii ''50005''))\<rparr>)
     = PStr (ascii ''20002'')
   \<and> resolve_group_id
     (sample_action\<lparr>action_data := Map.empty,
                    message := Some (Message (Some (MessageInfo (PStr (ascii ''30003''))))),
                    chat_stream := Some (ChatStream (PStr (ascii ''40004''))),
                    group_id_attr := Some (PStr (ascii ''50005''))\<rparr>)
     = PStr (ascii ''30003'')
   \<and> resolve_group_id
     (sample_action\<lparr>action_data := Map.empty,
                    message := Some (Message None),
                    chat_stream := Some (ChatStream (PStr (ascii ''40004''))),
                    group_id_attr := Some (PStr (ascii ''50005''))\<rparr>)
     = PStr (ascii ''40004'')
   \<and> resolve_group_id
     (sample_action\<lparr>action_data := Map.empty,
                    group_id_attr := Some (PStr (ascii ''None''))\<rparr>)
     = PNone
   \<and> resolve_group_id
     (sample_action\<lparr>action_data := [ascii ''group_id'' \<mapsto> PStr (ascii ''None'')],
                    message := Some (Message (Some (MessageInfo (PStr (ascii ''30003'')))))\<rparr>)
     = PNone
   \<and> snd (fst (get_user_and_group_id sample_host sample_action)) = PStr (ascii ''20002'')"
proof -
  let ?a0 = "sample_action\<lparr>action_data := [ascii ''group_id'' \<mapsto> PStr (ascii ''None'')],
                    message := Some (Message (Some (MessageInfo (PStr (ascii ''30003'')))))\<rparr>"
  have 0: "resolve_group_id ?a0 = PNone"
    using group_priority [of ?a0 sample_host]
    by (simp add: dict_get_def)
  let ?a1 = "sample_action\<lparr>message := Some (Message (Some (MessageInfo (PStr (ascii ''30003''))))),
                    chat_stream := Some (ChatStream (PStr (ascii ''40004''))),
                    group_id_attr := Some (PStr (ascii ''50005''))\<rparr>"
  let ?a2 = "sample_action\<lparr>action_data := Map.empty,
                    message := Some (Message (Some (MessageInfo (PStr (ascii ''30003''))))),
                    chat_stream := Some (ChatStream (PStr (ascii ''40004''))),
                    group_id_attr := Some (PStr (ascii ''50005''))\<rparr>"
  let ?a3 = "sample_action\<lparr>action_data := Map.empty,
                    message := Some (Message None),
                    chat_stream := Some (ChatStream (PStr (ascii ''40004''))),
                    group_id_attr := Some (PStr (ascii ''50005''))\<rparr>"
  let ?a4 = "sample_action\<lparr>action_data := Map.empty,
                    group_id_attr := Some (PStr (ascii ''None''))\<rparr>"
  have 1: "resolve_group_id ?a1 = PStr (ascii ''20002'')"
    using group_priority [of ?a1 sample_host]
    by (simp add: dict_get_def none_string_to_absent_def sample_action_def ascii_def)
  have 2: "resolve_group_id ?a2 = PStr (ascii ''30003'')"
    using group_priority [of ?a2 sample_host]
    by (simp add: dict_get_def none_string_to_absent_def message_group_def ascii_def)
  have 3: "resolve_group_id ?a3 = PStr (ascii ''40004'')"
    using group_priority [of ?a3 sample_host]
    by (simp add: dict_get_def none_string_to_absent_def message_group_def
        chat_stream_group_def ascii_def)
  have 4: "resolve_group_id ?a4 = PNone"
    using group_priority [of ?a4 sample_host]
    by (simp add: dict_get_def none_string_to_absent_def message_group_def
        chat_stream_group_def sample_action_def)
  have nu: "\<not> reference_unresolved sample_host sample_action"
    by (simp add: reference_unresolved_def dict_get_def py_isdigit_def sample_action_def
        sample_host_def ascii_db_def ascii_digit_def ascii_def)
  have 5: "snd (fst (get_user_and_group_id sample_host sample_action)) = PStr (ascii ''20002'')"
    using group_priority [of sample_action sample_host] nu
    by (simp add: dict_get_def none_string_to_absent_def sample_action_def ascii_def)
  from 0 1 2 3 4 5 show ?thesis by simp
qed

text \<open>
  Where claim C7 as stated fails: with the message metadata offering group 30003, a
  missing group reference resolves to that group, and the group reference \<^verbatim>\<open>'None'\<close>
  resolves to no group. The string is not treated as a missing reference.
\<close>

theorem none_string_is_not_a_missing_reference:
  "resolve_group_id
     (sample_action\<lparr>action_data := Map.empty,
                    message := Some (Message (Some (MessageInfo (PStr (ascii ''30003'')))))\<rparr>)
     = PStr (ascii ''30003'')
   \<and> resolve_group_id
     (sample_action\<lparr>action_data := [ascii ''group_id'' \<mapsto> PStr (ascii ''None'')],
                    message := Some (Message (Some (MessageInfo (PStr (ascii ''30003'')))))\<rparr>)
     = PNone"
  by (simp add: resolve_group_id_def dict_get_def group_from_message_def
      group_from_chat_stream_def group_from_attribute_def sample_action_def ascii_def)


section \<open>The cooldown gate\<close>

text \<open>
  Claim C2. When \<^verbatim>\<open>execute\<close> gets to the dispatch (a user id was resolved and the gate
  did not hold the invocation back), the instance it leaves behind has
  \<^verbatim>\<open>last_poke_user\<close> set to the resolved user id, \<^verbatim>\<open>_last_poke_time\<close> set to the time
  read at line 178, and \<^verbatim>\<open>last_poke_group\<close> set to the group id when the dispatch went
  to a group and to \<^verbatim>\<open>None\<close> when it went to a friend; nothing else changes. The
  statement does not look at the transport, the action store or \<^verbatim>\<open>send_text\<close>, so it
  holds whether the dispatch succeeds, fails, or a later call raises.
\<close>

theorem cooldown_state_updated:
  assumes "reaches_dispatch h a user_id group_id"
  shows "fst (snd (execute h a)) =
           a\<lparr>last_poke_group := (if truthy group_id then group_id else PNone),
             last_poke_user := user_id,
             last_poke_time := time_at_update h\<rparr>"
proof -
  obtain evs where r: "get_user_and_group_id h a = ((user_id, group_id), evs)"
    using assms by (cases "get_user_and_group_id h a") (simp add: reaches_dispatch_def)
  from assms have "truthy user_id" "\<not> cooldown_active h a user_id group_id"
    by (simp_all add: reaches_dispatch_def)
  from execute_dispatch [OF r this] show ?thesis
    by (simp add: after_dispatch_def stored_group_def)
qed

theorem cooldown_state_updated_witness:
  "fst (snd (execute (sample_host\<lparr>send_command := failing_transport\<rparr>) sample_action)) =
     sample_action\<lparr>last_poke_group := PStr (ascii ''20002''),
                   last_poke_user := PStr (ascii ''10001''),
                   last_poke_time := Finite 1001 0\<rparr>"
proof -
  have "reaches_dispatch (sample_host\<lparr>send_command := failing_transport\<rparr>) sample_action
          (PStr (ascii ''10001'')) (PStr (ascii ''20002''))"
    by (rule sample_reaches_dispatch) (simp add: sample_host_def)
  from cooldown_state_updated [OF this] show ?thesis
    by (simp add: sample_host_def ascii_def)
qed




text \<open>
  Claim C10. Whenever \<^verbatim>\<open>execute\<close> returns failure with the no-target message or with
  the duplicate-target message, the instance is exactly as it was before the call, in
  particular \<^verbatim>\<open>last_poke_user\<close>, \<^verbatim>\<open>last_poke_group\<close> and \<^verbatim>\<open>_last_poke_time\<close>, and the
  run has sent no command and written no record to the action store.
\<close>

theorem early_return_leaves_state:
  assumes "fst (execute h a) = Inr (False, txt_no_target)
           \<or> fst (execute h a) = Inr (False, txt_duplicate)"
  shows "fst (snd (execute h a)) = a
         \<and> filter is_dispatch (snd (snd (execute h a))) = []
         \<and> filter is_log_write (snd (snd (execute h a))) = []"
proof -
  obtain u g evs where r: "get_user_and_group_id h a = ((u, g), evs)"
    by (metis prod.exhaust)
  have q: "filter is_dispatch evs = []" "filter is_log_write evs = []"
    using resolution_quiet [of h a] r by simp_all
  show ?thesis
  proof (cases "truthy u")
    case False
    from execute_no_target [OF r False] q show ?thesis by simp
  next
    case True
    show ?thesis
    proof (cases "cooldown_active h a u g")
      case blocked: True
      from execute_duplicate [OF r True blocked] q show ?thesis by simp
    next
      case False
      from execute_dispatch [OF r True False] assms finish_not_early
      show ?thesis by simp
    qed
  qed
qed

theorem early_return_leaves_state_witness:
  "fst (snd (execute sample_host
       (sample_action\<lparr>action_data := [ascii ''group_id'' \<mapsto> PStr (ascii ''20002'')]\<rparr>)))
     = sample_action\<lparr>action_data := [ascii ''group_id'' \<mapsto> PStr (ascii ''20002'')]\<rparr>
   \<and> filter is_log_write (snd (snd (execute sample_host
       (sample_action\<lparr>action_data := [ascii ''group_id'' \<mapsto> PStr (ascii ''20002'')]\<rparr>))))
     = []
   \<and> fst (snd (execute (sample_host\<lparr>time_at_check := Finite 1200 0\<rparr>)
         (fst (snd (execute sample_host sample_action)))))
     = fst (snd (execute sample_host sample_action))
   \<and> filter is_dispatch (snd (snd (execute (sample_host\<lparr>time_at_check := Finite 1200 0\<rparr>)
         (fst (snd (execute sample_host sample_action)))))) = []"
proof -
  let ?a = "sample_action\<lparr>action_data := [ascii ''group_id'' \<mapsto> PStr (ascii ''20002'')]\<rparr>"
  let ?a2 = "fst (snd (execute sample_host sample_action))"
  let ?h2 = "sample_host\<lparr>time_at_check := Finite 1200 0\<rparr>"
  have "fst (execute sample_host ?a) = Inr (False, txt_no_target)"
    using execute_no_target [OF sample_no_target] by simp
  then have one: "fst (snd (execute sample_host ?a)) = ?a
      \<and> filter is_log_write (snd (snd (execute sample_host ?a))) = []"
    using early_return_leaves_state [of sample_host ?a] by simp
  have r: "get_user_and_group_id ?h2 ?a2
             = ((PStr (ascii ''10001''), PStr (ascii ''20002'')), [])"
    unfolding sample_first_run resolution_ignores_cooldown
    by (rule sample_resolution) (simp add: sample_host_def)
  have "cooldown_active ?h2 ?a2 (PStr (ascii ''10001'')) (PStr (ascii ''20002''))"
    unfolding sample_first_run by (simp add: cooldown_active_def sample_host_def float_eval)
  from execute_duplicate [OF r _ this]
  have "fst (execute ?h2 ?a2) = Inr (False, txt_duplicate)"
    by (simp add: ascii_def)
  then have two: "fst (snd (execute ?h2 ?a2)) = ?a2
      \<and> filter is_dispatch (snd (snd (execute ?h2 ?a2))) = []"
    using early_return_leaves_state [of ?h2 ?a2] by simp
  from one two show ?thesis by simp
qed

section \<open>No target\<close>

text \<open>
  Claim C6. When no step yields a user id (the user reference is missing or empty, or
  not numeric and not mapped by the person API, and the response text has no match of
  \<^verbatim>\<open>user_id:\s*(\d+)\<close>), \<^verbatim>\<open>get_user_and_group_id\<close> returns \<^verbatim>\<open>(None, None)\<close>, whatever
  group id lines 90 to 101 or the text had found, and \<^verbatim>\<open>execute\<close> returns failure with
  the no-target message and sends no command.
\<close>

theorem unresolved_user_fails:
  assumes "reference_unresolved h a"
    and "re_search (unicode h) (ascii ''user_id:'') (llm_response_text a) = None"
  shows "fst (get_user_and_group_id h a) = (PNone, PNone)
         \<and> fst (execute h a) = Inr (False, txt_no_target)
         \<and> filter is_dispatch (snd (snd (execute h a))) = []"
proof -
  have res: "fst (get_user_and_group_id h a) = (PNone, PNone)"
    using assms
    by (auto simp: reference_unresolved_def get_user_and_group_id_def Let_def
        scan_response_text_def split: prod.splits option.splits)
  then obtain evs where r: "get_user_and_group_id h a = ((PNone, PNone), evs)"
    by (cases "get_user_and_group_id h a") simp
  have q: "filter is_dispatch evs = []"
    using resolution_quiet(1) [of h a] r by simp
  from execute_no_target [OF r] q res show ?thesis by simp
qed

theorem unresolved_user_fails_witness:
  "resolve_group_id
     (sample_action\<lparr>action_data := [ascii ''group_id'' \<mapsto> PStr (ascii ''20002'')]\<rparr>)
     = PStr (ascii ''20002'')
   \<and> fst (get_user_and_group_id sample_host
       (sample_action\<lparr>action_data := [ascii ''group_id'' \<mapsto> PStr (ascii ''20002'')]\<rparr>))
     = (PNone, PNone)
   \<and> fst (execute sample_host
       (sample_action\<lparr>action_data := [ascii ''group_id'' \<mapsto> PStr (ascii ''20002'')]\<rparr>))
     = Inr (False, txt_no_target)
   \<and> filter is_dispatch (snd (snd (execute sample_host
       (sample_action\<lparr>action_data := [ascii ''group_id'' \<mapsto> PStr (ascii ''20002'')]\<rparr>))))
     = []"
proof -
  let ?a = "sample_action\<lparr>action_data := [ascii ''group_id'' \<mapsto> PStr (ascii ''20002'')]\<rparr>"
  have g: "resolve_group_id ?a = PStr (ascii ''20002'')"
    by (simp add: resolve_group_id_def dict_get_def group_from_message_def
        group_from_chat_stream_def group_from_attribute_def sample_action_def ascii_def)
  have 1: "reference_unresolved sample_host ?a"
    by (simp add: reference_unresolved_def dict_get_def ascii_def)
  have 2: "re_search (unicode sample_host) (ascii ''user_id:'') (llm_response_text ?a) = None"
    by (simp add: sample_action_def match_at_def ascii_def)
  from unresolved_user_fails [OF 1 2] g show ?thesis by simp
qed

section \<open>Dispatch and the action log\<close>

text \<open>
  Claim C8, as the code has it. When the transport call returns, \<^verbatim>\<open>_send_group_poke\<close> and
  \<^verbatim>\<open>_send_friend_poke\<close> yield the acknowledgement. When it raises \<open>e\<close>, each yields the
  failure result carrying \<^verbatim>\<open>str(e)\<close> and logs one error line with its own prefix; no
  exception leaves them. In a run of \<^verbatim>\<open>execute\<close> that got to the dispatch and whose
  transport call raised, the calls are those of the resolution, the debug line, the
  command, the error line of the group path when the group id is truthy and of the
  friend path otherwise, and, when \<^verbatim>\<open>POKE_DEBUG\<close> is set, one \<^verbatim>\<open>send_text\<close> with the failure
  message. \<^verbatim>\<open>execute\<close> then returns failure with that message, unless \<^verbatim>\<open>POKE_DEBUG\<close> is
  set and \<^verbatim>\<open>send_text\<close> itself raises: lines 192 to 194 are outside any handler, and that
  exception leaves \<^verbatim>\<open>execute\<close>.
\<close>

theorem transport_failure_contained:
  "(\<forall>v. transport_outcome h a user_id = Return v \<longrightarrow>
         send_group_poke h a group_id reply_id user_id =
           (Sent poke_ack,
            [SendCommand (ascii ''SEND_POKE'') [(ascii ''qq_id'', user_id)]
               (display_message a user_id)])
         \<and> send_friend_poke h a user_id =
           (Sent poke_ack,
            [SendCommand (ascii ''SEND_POKE'') [(ascii ''qq_id'', user_id)]
               (display_message a user_id)]))
   \<and> (\<forall>e. transport_outcome h a user_id = Raise e \<longrightarrow>
         send_group_poke h a group_id reply_id user_id =
           (Failed (description e),
            [SendCommand (ascii ''SEND_POKE'') [(ascii ''qq_id'', user_id)]
               (display_message a user_id),
             LoggerError (txt_group_failed @ description e)])
         \<and> send_friend_poke h a user_id =
           (Failed (description e),
            [SendCommand (ascii ''SEND_POKE'') [(ascii ''qq_id'', user_id)]
               (display_message a user_id),
             LoggerError (txt_friend_failed @ description e)])
         \<and> (reaches_dispatch h a user_id group_id \<longrightarrow>
              snd (snd (execute h a)) =
                snd (get_user_and_group_id h a)
                @ (if POKE_DEBUG h then [LoggerInfo (debug_line user_id group_id)] else [])
                @ [SendCommand (ascii ''SEND_POKE'') [(ascii ''qq_id'', user_id)]
                     (display_message a user_id),
                   LoggerError ((if truthy group_id then txt_group_failed else txt_friend_failed)
                                @ description e)]
                @ (if POKE_DEBUG h then [SendText (txt_failed @ description e)] else [])
              \<and> fst (execute h a) =
                  (if POKE_DEBUG h
                   then (case send_text h (txt_failed @ description e) of
                           Return u \<Rightarrow> Inr (False, txt_failed @ description e)
                         | Raise e' \<Rightarrow> Inl e')
                   else Inr (False, txt_failed @ description e))))"
proof -
  have run: "snd (snd (execute h a)) =
                snd (get_user_and_group_id h a)
                @ (if POKE_DEBUG h then [LoggerInfo (debug_line user_id group_id)] else [])
                @ [SendCommand (ascii ''SEND_POKE'') [(ascii ''qq_id'', user_id)]
                     (display_message a user_id),
                   LoggerError ((if truthy group_id then txt_group_failed else txt_friend_failed)
                                @ description e)]
                @ (if POKE_DEBUG h then [SendText (txt_failed @ description e)] else [])
              \<and> fst (execute h a) =
                  (if POKE_DEBUG h
                   then (case send_text h (txt_failed @ description e) of
                           Return u \<Rightarrow> Inr (False, txt_failed @ description e)
                         | Raise e' \<Rightarrow> Inl e')
                   else Inr (False, txt_failed @ description e))"
    if raises: "transport_outcome h a user_id = Raise e"
      and reach: "reaches_dispatch h a user_id group_id" for e
  proof -
    obtain evs where r: "get_user_and_group_id h a = ((user_id, group_id), evs)"
      using reach by (cases "get_user_and_group_id h a") (simp add: reaches_dispatch_def)
    from reach have u: "truthy user_id" and nb: "\<not> cooldown_active h a user_id group_id"
      by (simp_all add: reaches_dispatch_def)
    show ?thesis
      unfolding execute_dispatch [OF r u nb] dispatch_raises [OF raises]
      by (simp add: r finish_failed)
  qed
  have ret: "\<forall>v. transport_outcome h a user_id = Return v \<longrightarrow>
         send_group_poke h a group_id reply_id user_id =
           (Sent poke_ack,
            [SendCommand (ascii ''SEND_POKE'') [(ascii ''qq_id'', user_id)]
               (display_message a user_id)])
         \<and> send_friend_poke h a user_id =
           (Sent poke_ack,
            [SendCommand (ascii ''SEND_POKE'') [(ascii ''qq_id'', user_id)]
               (display_message a user_id)])"
    by (simp add: send_group_poke_def send_friend_poke_def transport_outcome_def)
  have helpers: "send_group_poke h a group_id reply_id user_id =
           (Failed (description e),
            [SendCommand (ascii ''SEND_POKE'') [(ascii ''qq_id'', user_id)]
               (display_message a user_id),
             LoggerError (txt_group_failed @ description e)])
         \<and> send_friend_poke h a user_id =
           (Failed (description e),
            [SendCommand (ascii ''SEND_POKE'') [(ascii ''qq_id'', user_id)]
               (display_message a user_id),
             LoggerError (txt_friend_failed @ description e)])"
    if "transport_outcome h a user_id = Raise e" for e
    using that by (simp add: send_group_poke_def send_friend_poke_def transport_outcome_def)
  from ret helpers run show ?thesis by blast
qed

theorem transport_failure_contained_witness:
  "execute (sample_host\<lparr>send_command := failing_transport\<rparr>) sample_action =
     (Inr (False, txt_failed @ ascii ''timeout''),
      sample_action\<lparr>last_poke_group := PStr (ascii ''20002''),
                    last_poke_user := PStr (ascii ''10001''),
                    last_poke_time := Finite 1001 0\<rparr>,
      [LoggerInfo (txt_poke_args @ ascii ''10001, group_id=20002''),
       SendCommand (ascii ''SEND_POKE'') [(ascii ''qq_id'', PStr (ascii ''10001''))]
         (txt_poked @ ascii ''10001]''),
       LoggerError (txt_group_failed @ ascii ''timeout''),
       SendText (txt_failed @ ascii ''timeout'')])
   \<and> snd (snd (execute (sample_host\<lparr>send_command := failing_transport\<rparr>)
        (sample_action\<lparr>action_data := [ascii ''user_id'' \<mapsto> PStr (ascii ''10001'')]\<rparr>))) =
      [LoggerInfo (txt_poke_args @ ascii ''10001, group_id=None''),
       SendCommand (ascii ''SEND_POKE'') [(ascii ''qq_id'', PStr (ascii ''10001''))]
         (txt_poked @ ascii ''10001]''),
       LoggerError (txt_friend_failed @ ascii ''timeout''),
       SendText (txt_failed @ ascii ''timeout'')]
   \<and> send_group_poke sample_host sample_action (PStr (ascii ''20002'')) PNone
        (PStr (ascii ''10001'')) =
      (Sent poke_ack,
       [SendCommand (ascii ''SEND_POKE'') [(ascii ''qq_id'', PStr (ascii ''10001''))]
         (txt_poked @ ascii ''10001]'')])
   \<and> fst (execute (sample_host\<lparr>POKE_DEBUG := False, send_command := failing_transport,
                               send_text := failing_send_text\<rparr>) sample_action) =
      Inr (False, txt_failed @ ascii ''timeout'')"
proof -
  let ?h = "sample_host\<lparr>send_command := failing_transport\<rparr>"
  let ?q = "sample_host\<lparr>POKE_DEBUG := False, send_command := failing_transport,
                        send_text := failing_send_text\<rparr>"
  let ?b = "sample_action\<lparr>action_data := [ascii ''user_id'' \<mapsto> PStr (ascii ''10001'')]\<rparr>"
  let ?u = "PStr (ascii ''10001'')"
  let ?g = "PStr (ascii ''20002'')"
  have u: "unicode ?h = ascii_db" and uq: "unicode ?q = ascii_db"
    by (simp_all add: sample_host_def)
  have d: "display_message sample_action ?u = txt_poked @ ascii ''10001]''"
    "display_message ?b ?u = txt_poked @ ascii ''10001]''"
    by (simp_all add: display_message_def dict_get_default_def sample_action_def ascii_def)
  have raises: "transport_outcome ?h a ?u = Raise (Exception (ascii ''timeout''))"
    "transport_outcome ?q a ?u = Raise (Exception (ascii ''timeout''))" for a
    by (simp_all add: transport_outcome_def failing_transport_def sample_host_def)
  have returns: "transport_outcome sample_host sample_action ?u = Return PNone"
    by (simp add: transport_outcome_def sample_host_def)
  have env: "POKE_DEBUG sample_host" "send_text sample_host t = Return ()" for t
    by (simp_all add: sample_host_def)
  have tg: "truthy ?g" "\<not> truthy PNone" by (simp_all add: ascii_def)
  have state: "fst (snd (execute ?h sample_action)) =
     sample_action\<lparr>last_poke_group := ?g, last_poke_user := ?u, last_poke_time := Finite 1001 0\<rparr>"
    using execute_dispatch [OF sample_resolution [OF u]] sample_reaches_dispatch [OF u]
    by (simp add: reaches_dispatch_def after_dispatch_def stored_group_def)
       (simp add: sample_host_def ascii_def)
  have group_run: "fst (execute ?h sample_action) = Inr (False, txt_failed @ ascii ''timeout'')
      \<and> snd (snd (execute ?h sample_action)) =
      [LoggerInfo (txt_poke_args @ ascii ''10001, group_id=20002''),
       SendCommand (ascii ''SEND_POKE'') [(ascii ''qq_id'', ?u)] (txt_poked @ ascii ''10001]''),
       LoggerError (txt_group_failed @ ascii ''timeout''),
       SendText (txt_failed @ ascii ''timeout'')]"
    using transport_failure_contained [of ?h sample_action ?u ?g PNone]
      raises(1) [of sample_action] sample_reaches_dispatch [OF u]
    by (simp add: env tg d sample_resolution [OF u] debug_line_def) (simp add: ascii_def)
  have friend_run: "snd (snd (execute ?h ?b)) =
      [LoggerInfo (txt_poke_args @ ascii ''10001, group_id=None''),
       SendCommand (ascii ''SEND_POKE'') [(ascii ''qq_id'', ?u)] (txt_poked @ ascii ''10001]''),
       LoggerError (txt_friend_failed @ ascii ''timeout''),
       SendText (txt_failed @ ascii ''timeout'')]"
    using transport_failure_contained [of ?h ?b ?u PNone PNone]
      raises(1) [of ?b] sample_friend_reaches_dispatch [OF u]
    by (simp add: env d debug_line_def sample_friend_resolution [OF u]) (simp add: ascii_def)
  have sent: "send_group_poke sample_host sample_action ?g PNone ?u =
      (Sent poke_ack,
       [SendCommand (ascii ''SEND_POKE'') [(ascii ''qq_id'', ?u)] (txt_poked @ ascii ''10001]'')])"
  proof -
    have "send_group_poke sample_host sample_action ?g PNone ?u =
      (Sent poke_ack,
       [SendCommand (ascii ''SEND_POKE'') [(ascii ''qq_id'', ?u)]
          (display_message sample_action ?u)])"
      using transport_failure_contained [of sample_host sample_action ?u ?g PNone] returns
      by blast
    then show ?thesis by (simp only: d)
  qed
  have quiet: "fst (execute ?q sample_action) = Inr (False, txt_failed @ ascii ''timeout'')"
  proof -
    have "\<not> POKE_DEBUG ?q" by (simp add: sample_host_def)
    with transport_failure_contained [of ?q sample_action ?u ?g PNone]
      raises(2) [of sample_action] sample_reaches_dispatch [OF uq]
    show ?thesis by simp
  qed
  from state group_run friend_run sent quiet show ?thesis
    by (cases "execute ?h sample_action") simp
qed

text \<open>
  Where claim C8 as stated fails: \<^verbatim>\<open>POKE_DEBUG\<close> is set as shipped, the transport call
  raises and is caught, and \<^verbatim>\<open>send_text\<close> raises in its turn; \<^verbatim>\<open>execute\<close> does not return
  failure, the exception of \<^verbatim>\<open>send_text\<close> leaves it.
\<close>

theorem send_text_exception_leaves_execute:
  "POKE_DEBUG (sample_host\<lparr>send_command := failing_transport,
                            send_text := failing_send_text\<rparr>)
   \<and> transport_outcome (sample_host\<lparr>send_command := failing_transport,
                                    send_text := failing_send_text\<rparr>)
        sample_action (PStr (ascii ''10001''))
      = Raise (Exception (ascii ''timeout''))
   \<and> fst (execute (sample_host\<lparr>send_command := failing_transport,
                               send_text := failing_send_text\<rparr>) sample_action)
      = Inl (Exception (ascii ''closed''))"
proof -
  let ?h = "sample_host\<lparr>send_command := failing_transport, send_text := failing_send_text\<rparr>"
  let ?u = "PStr (ascii ''10001'')"
  let ?g = "PStr (ascii ''20002'')"
  have u: "unicode ?h = ascii_db" and dbg: "POKE_DEBUG ?h"
    by (simp_all add: sample_host_def)
  have raises: "transport_outcome ?h sample_action ?u = Raise (Exception (ascii ''timeout''))"
    by (simp add: transport_outcome_def failing_transport_def sample_host_def)
  have tu: "truthy ?u" by (simp add: ascii_def)
  have nb: "\<not> cooldown_active ?h sample_action ?u ?g"
    using sample_reaches_dispatch [OF u] by (simp add: reaches_dispatch_def)
  have "fst (execute ?h sample_action) = Inl (Exception (ascii ''closed''))"
    unfolding execute_dispatch [OF sample_resolution [OF u] tu nb] dispatch_raises [OF raises]
    by (simp add: finish_failed dbg) (simp add: sample_host_def failing_send_text_def)
  with dbg raises show ?thesis by simp
qed

text \<open>
  Claim C9. In a run of \<^verbatim>\<open>execute\<close> that got to the dispatch: when the transport call
  returns, the action store is called exactly once, with \<^verbatim>\<open>action_name="poke"\<close>,
  \<^verbatim>\<open>action_done=True\<close>, \<^verbatim>\<open>action_build_into_prompt=True\<close>, and a reason that is the value
  under \<^verbatim>\<open>"reason"\<close> in the invocation data when that key is there, else the instance's
  \<^verbatim>\<open>reasoning\<close> when it is truthy, else the one-character marker; when the transport
  call raises, the action store is not called.
\<close>

theorem action_log_written_once:
  assumes "reaches_dispatch h a user_id group_id"
  shows "(\<forall>v. transport_outcome h a user_id = Return v \<longrightarrow>
            filter is_log_write (snd (snd (execute h a))) =
              [StoreActionInfo
                 \<lparr>arg_chat_stream = chat_stream a,
                  arg_action_build_into_prompt = True,
                  arg_action_prompt_display =
                    txt_used_poke @ py_str
                      (case action_data a (ascii ''reason'') of
                         Some v \<Rightarrow> v
                       | None \<Rightarrow> if truthy (reasoning a) then reasoning a
                                 else PStr txt_none_marker),
                  arg_action_done = True,
                  arg_action_data =
                    [(ascii ''reason'',
                      case action_data a (ascii ''reason'') of
                        Some v \<Rightarrow> v
                      | None \<Rightarrow> if truthy (reasoning a) then reasoning a
                                else PStr txt_none_marker)],
                  arg_action_name = ascii ''poke''\<rparr>])
       \<and> (\<forall>e. transport_outcome h a user_id = Raise e \<longrightarrow>
            filter is_log_write (snd (snd (execute h a))) = [])"
proof -
  obtain evs where r: "get_user_and_group_id h a = ((user_id, group_id), evs)"
    using assms by (cases "get_user_and_group_id h a") (simp add: reaches_dispatch_def)
  from assms have u: "truthy user_id" and nb: "\<not> cooldown_active h a user_id group_id"
    by (simp_all add: reaches_dispatch_def)
  have q: "filter is_log_write evs = []"
    using resolution_quiet(2) [of h a] r by simp
  have ok: "filter is_log_write (snd (snd (execute h a))) = [StoreActionInfo (log_record a)]"
    if "transport_outcome h a user_id = Return v" for v
    unfolding execute_dispatch [OF r u nb] dispatch_returns [OF that]
    by (simp add: q finish_log_writes log_record_ignores_cooldown)
  have bad: "filter is_log_write (snd (snd (execute h a))) = []"
    if "transport_outcome h a user_id = Raise e" for e
    unfolding execute_dispatch [OF r u nb] dispatch_raises [OF that]
    by (simp add: q finish_log_writes)
  from ok bad show ?thesis
    by (simp add: log_record_def log_reason_def dict_get_default_def)
qed

theorem action_log_written_once_witness:
  "filter is_log_write (snd (snd (execute sample_host sample_action))) =
     [StoreActionInfo
        \<lparr>arg_chat_stream = None,
         arg_action_build_into_prompt = True,
         arg_action_prompt_display = txt_used_poke @ txt_none_marker,
         arg_action_done = True,
         arg_action_data = [(ascii ''reason'', PStr txt_none_marker)],
         arg_action_name = ascii ''poke''\<rparr>]
   \<and> filter is_log_write (snd (snd (execute sample_host
         (sample_action\<lparr>reasoning := PStr (ascii ''asked to'')\<rparr>)))) =
     [StoreActionInfo
        \<lparr>arg_chat_stream = None,
         arg_action_build_into_prompt = True,
         arg_action_prompt_display = txt_used_poke @ ascii ''asked to'',
         arg_action_done = True,
         arg_action_data = [(ascii ''reason'', PStr (ascii ''asked to''))],
         arg_action_name = ascii ''poke''\<rparr>]
   \<and> filter is_log_write
        (snd (snd (execute (sample_host\<lparr>send_command := failing_transport\<rparr>) sample_action)))
      = []"
proof -
  let ?h = "sample_host\<lparr>send_command := failing_transport\<rparr>"
  let ?c = "sample_action\<lparr>reasoning := PStr (ascii ''asked to'')\<rparr>"
  let ?u = "PStr (ascii ''10001'')"
  let ?g = "PStr (ascii ''20002'')"
  have u: "unicode ?h = ascii_db" "unicode sample_host = ascii_db"
    by (simp_all add: sample_host_def)
  have raises: "transport_outcome ?h sample_action ?u = Raise (Exception (ascii ''timeout''))"
    by (simp add: transport_outcome_def failing_transport_def sample_host_def)
  have returns: "transport_outcome sample_host a ?u = Return PNone" for a
    by (simp add: transport_outcome_def sample_host_def)
  have reach_c: "reaches_dispatch sample_host ?c ?u ?g"
    by (simp add: reaches_dispatch_def cooldown_active_def get_user_and_group_id_def
      dict_get_def py_isdigit_def resolve_group_id_def group_from_message_def
      group_from_chat_stream_def group_from_attribute_def
      sample_action_def sample_host_def ascii_db_def ascii_digit_def ascii_def)
  have one: "filter is_log_write (snd (snd (execute sample_host sample_action))) =
     [StoreActionInfo
        \<lparr>arg_chat_stream = None,
         arg_action_build_into_prompt = True,
         arg_action_prompt_display = txt_used_poke @ txt_none_marker,
         arg_action_done = True,
         arg_action_data = [(ascii ''reason'', PStr txt_none_marker)],
         arg_action_name = ascii ''poke''\<rparr>]"
    using action_log_written_once [OF sample_reaches_dispatch [OF u(2)]] returns
    by (simp add: sample_action_def ascii_def)
  have two: "filter is_log_write (snd (snd (execute sample_host ?c))) =
     [StoreActionInfo
        \<lparr>arg_chat_stream = None,
         arg_action_build_into_prompt = True,
         arg_action_prompt_display = txt_used_poke @ ascii ''asked to'',
         arg_action_done = True,
         arg_action_data = [(ascii ''reason'', PStr (ascii ''asked to''))],
         arg_action_name = ascii ''poke''\<rparr>]"
    using action_log_written_once [OF reach_c] returns
    by (simp add: sample_action_def ascii_def)
  have three: "filter is_log_write (snd (snd (execute ?h sample_action))) = []"
    using action_log_written_once [OF sample_reaches_dispatch [OF u(1)]] raises
    by simp
  from one two three show ?thesis by simp
qed

end
